theory Spec2Isabelle
  imports Complex_Main
begin

section \<open>Numbers\<close>

text \<open>
  Python floats are modelled as real numbers: every arithmetic step is exact, so the
  theorems below speak about the formulas the code evaluates, not about binary rounding.
  \<open>round(x)\<close> on a float rounds to the nearest integer, ties to the even one;
  \<open>round(x, n)\<close> does the same at the n-th decimal.
\<close>

definition py_round :: "real \<Rightarrow> int" where
  "py_round x =
     (let f = \<lfloor>x\<rfloor>; d = x - of_int f
      in if d < 1 / 2 then f else if 1 / 2 < d then f + 1 else if even f then f else f + 1)"

definition py_round_nd :: "real \<Rightarrow> nat \<Rightarrow> real" where
  "py_round_nd x n = of_int (py_round (x * 10 ^ n)) / 10 ^ n"

text \<open>\<open>range(start, stop, step)\<close> and \<open>np.arange(start, stop, step)\<close>, for a positive step.\<close>

definition py_range :: "int \<Rightarrow> int \<Rightarrow> int \<Rightarrow> int list" where
  "py_range start stop step =
     map (\<lambda>k. start + int k * step) [0 ..< nat ((stop - start + step - 1) div step)]"

definition np_arange :: "real \<Rightarrow> real \<Rightarrow> real \<Rightarrow> real list" where
  "np_arange start stop step =
     map (\<lambda>k. start + real k * step) [0 ..< nat \<lceil>(stop - start) / step\<rceil>]"

section \<open>Great-circle distance (\<open>haversine\<close>, both modules)\<close>

definition radians :: "real \<Rightarrow> real" where
  "radians d = d * pi / 180"

text \<open>\<open>math.atan2(y, x)\<close> on reals (no signed zeros).\<close>

definition atan2 :: "real \<Rightarrow> real \<Rightarrow> real" where
  "atan2 y x =
     (if 0 < x then arctan (y / x)
      else if x < 0 then (if 0 \<le> y then arctan (y / x) + pi else arctan (y / x) - pi)
      else if 0 < y then pi / 2
      else if y < 0 then - (pi / 2)
      else 0)"

text \<open>The intermediate \<open>a\<close> of \<open>haversine\<close>.\<close>

definition haversine_a :: "real \<Rightarrow> real \<Rightarrow> real \<Rightarrow> real \<Rightarrow> real" where
  "haversine_a lat1 lon1 lat2 lon2 =
     (let dlat = radians (lat2 - lat1); dlon = radians (lon2 - lon1)
      in (sin (dlat / 2))\<^sup>2 + cos (radians lat1) * cos (radians lat2) * (sin (dlon / 2))\<^sup>2)"

text \<open>
  \<open>math.sqrt\<close> raises on a negative argument; lemma \<open>haversine_a_range\<close> below shows
  that both arguments handed to it lie in \<open>[0, 1]\<close>, so the model needs no error branch.
\<close>

definition haversine :: "real \<Rightarrow> real \<Rightarrow> real \<Rightarrow> real \<Rightarrow> real" where
  "haversine lat1 lon1 lat2 lon2 =
     (let a = haversine_a lat1 lon1 lat2 lon2
      in 6371 * 2 * atan2 (sqrt a) (sqrt (1 - a)))"

section \<open>Point records\<close>

text \<open>
  The dictionaries of the two modules share the keys \<open>lat\<close> and \<open>lon\<close>. An AQI point adds
  \<open>aqi\<close> and \<open>category\<close>, a fetched station adds \<open>city\<close> and \<open>time\<close> to those, and an
  AOD point adds \<open>aod\<close>.
\<close>

record geo =
  lat :: real
  lon :: real

record aqi_point = geo +
  aqi :: real
  category :: string

record station = aqi_point +
  city :: string
  time :: string

record aod_point = geo +
  aod :: real

section \<open>\<open>smooth_aqi_points\<close>, step 1: grouping nearby stations\<close>

text \<open>
  The inner loop over \<open>enumerate(points)\<close>: the indexed points \<open>q\<close> with \<open>j \<noteq> i\<close> that lie
  closer than \<open>radius_km\<close> to \<open>p\<close>. The source does not consult \<open>used\<close> here.
\<close>

definition near :: "'a aqi_point_scheme list \<Rightarrow> real \<Rightarrow> nat \<Rightarrow> 'a aqi_point_scheme
    \<Rightarrow> (nat \<times> 'a aqi_point_scheme) list" where
  "near points radius_km i p =
     filter (\<lambda>(j, q). j \<noteq> i \<and> haversine (lat p) (lon p) (lat q) (lon q) < radius_km)
       (enumerate 0 points)"

text \<open>
  The outer loop, with the set \<open>used\<close> passed along; it returns the list \<open>cluster\<close> built
  in each iteration that is not skipped.
\<close>

fun cluster_loop :: "'a aqi_point_scheme list \<Rightarrow> real \<Rightarrow> (nat \<times> 'a aqi_point_scheme) list
    \<Rightarrow> nat set \<Rightarrow> 'a aqi_point_scheme list list" where
  "cluster_loop points radius_km [] used = []"
| "cluster_loop points radius_km ((i, p) # rest) used =
     (if i \<in> used then cluster_loop points radius_km rest used
      else
        let found = near points radius_km i p;
            cluster = p # map snd found;
            used' = used \<union> set (map fst found)
        in cluster # cluster_loop points radius_km rest used')"

definition clusters :: "'a aqi_point_scheme list \<Rightarrow> real \<Rightarrow> 'a aqi_point_scheme list list" where
  "clusters points radius_km = cluster_loop points radius_km (enumerate 0 points) {}"

text \<open>The dictionary appended to \<open>smoothed\<close> for one cluster (a cluster is never empty).\<close>

definition representative :: "'a aqi_point_scheme list \<Rightarrow> aqi_point" where
  "representative cluster =
     (let avg_aqi = sum_list (map aqi cluster) / real (length cluster)
      in \<lparr> lat = sum_list (map lat cluster) / real (length cluster),
           lon = sum_list (map lon cluster) / real (length cluster),
           aqi = of_int (py_round avg_aqi),
           category = (if length cluster > 1 then ''Interpolated'' else category (hd cluster)) \<rparr>)"

definition smoothed :: "'a aqi_point_scheme list \<Rightarrow> real \<Rightarrow> aqi_point list" where
  "smoothed points radius_km = map representative (clusters points radius_km)"

section \<open>Nearest neighbours and the weighted mean (both modules)\<close>

text \<open>\<open>sorted(points, key=...)[:5]\<close>; \<open>sorted\<close> is stable, as \<open>sort_key\<close> is.\<close>

definition nearest :: "real \<Rightarrow> real \<Rightarrow> 'a geo_scheme list \<Rightarrow> 'a geo_scheme list" where
  "nearest la lo points = take 5 (sort_key (\<lambda>p. haversine la lo (lat p) (lon p)) points)"

definition weights :: "real \<Rightarrow> real \<Rightarrow> 'a geo_scheme list \<Rightarrow> real list" where
  "weights la lo ns = map (\<lambda>n. 1 / (haversine la lo (lat n) (lon n) + 1)) ns"

text \<open>\<open>sum(n[key] * w for n, w in zip(nearest, weights)) / sum(weights)\<close>\<close>

definition weighted_avg :: "('a \<Rightarrow> real) \<Rightarrow> 'a list \<Rightarrow> real list \<Rightarrow> real" where
  "weighted_avg val ns ws = sum_list (map (\<lambda>(n, w). val n * w) (zip ns ws)) / sum_list ws"

section \<open>\<open>smooth_aqi_points\<close>, step 2: the grid\<close>

definition aqi_lat_range :: "int list" where
  "aqi_lat_range = py_range 25 50 2"

definition aqi_lon_range :: "int list" where
  "aqi_lon_range = py_range (- 125) (- 65) 2"

text \<open>The dictionary appended to \<open>filled\<close> at a lattice coordinate with neighbours \<open>ns\<close>.\<close>

definition aqi_cell :: "'a aqi_point_scheme list \<Rightarrow> int \<Rightarrow> int \<Rightarrow> aqi_point" where
  "aqi_cell ns la lo =
     (let ws = weights (of_int la) (of_int lo) ns;
          avg = weighted_avg aqi ns ws
      in \<lparr> lat = of_int la + 1 / 2, lon = of_int lo + 1 / 2,
           aqi = of_int (py_round avg), category = ''Interpolated'' \<rparr>)"

text \<open>The two nested loops, for the lattice coordinates still to visit.\<close>

fun filled :: "'a aqi_point_scheme list \<Rightarrow> (int \<times> int) list \<Rightarrow> aqi_point list" where
  "filled points [] = []"
| "filled points ((la, lo) # rest) =
     (let ns = nearest (of_int la) (of_int lo) points
      in if ns \<noteq> [] then aqi_cell ns la lo # filled points rest
         else filled points rest)"

definition smooth_aqi_points :: "'a aqi_point_scheme list \<Rightarrow> real \<Rightarrow> aqi_point list" where
  "smooth_aqi_points points radius_km =
     (if points = [] then []
      else smoothed points radius_km @ filled points (List.product aqi_lat_range aqi_lon_range))"

section \<open>\<open>smooth_aod_points\<close>\<close>

text \<open>
  \<open>random.uniform(-0.3, 0.3)\<close> is a read from a tape of draws \<open>rnd\<close>; \<open>k\<close> counts the
  draws made so far. Each emitted cell makes two draws, first for \<open>lat\<close>, then for \<open>lon\<close>.
\<close>

definition aod_cell :: "'a aod_point_scheme list \<Rightarrow> real \<Rightarrow> real \<Rightarrow> real \<Rightarrow> real \<Rightarrow> aod_point" where
  "aod_cell nearby la lo r1 r2 =
     (let ws = weights la lo nearby;
          avg = weighted_avg aod nearby ws
      in \<lparr> lat = la + r1, lon = lo + r2, aod = py_round_nd avg 3 \<rparr>)"

fun aod_loop :: "'a aod_point_scheme list \<Rightarrow> (real \<times> real) list \<Rightarrow> (nat \<Rightarrow> real) \<Rightarrow> nat
    \<Rightarrow> aod_point list" where
  "aod_loop points [] rnd k = []"
| "aod_loop points ((la, lo) # rest) rnd k =
     (let nearby = nearest la lo points
      in if nearby = [] then aod_loop points rest rnd k
         else aod_cell nearby la lo (rnd k) (rnd (k + 1)) # aod_loop points rest rnd (k + 2))"

definition smooth_aod_points :: "'a aod_point_scheme list \<Rightarrow> real \<Rightarrow> (nat \<Rightarrow> real)
    \<Rightarrow> aod_point list" where
  "smooth_aod_points points spacing rnd =
     (if points = [] then []
      else aod_loop points
             (List.product (np_arange 25 49 spacing) (np_arange (- 125) (- 66) spacing)) rnd 0)"

section \<open>The AirNow adapter (\<open>fetch_station\<close>, \<open>fetch_all_aqi\<close>)\<close>

definition COORDS :: "(real \<times> real) list" where
  "COORDS =
     [(47.61, - 122.33), (34.05, - 118.24), (36.16, - 115.15),
      (40.76, - 111.89), (39.74, - 104.99), (41.88, - 87.63),
      (29.76, - 95.37), (32.78, - 96.80), (38.63, - 90.20),
      (40.71, - 74.00), (42.36, - 71.06), (33.75, - 84.39),
      (25.76, - 80.19), (44.95, - 93.09), (39.95, - 75.16),
      (45.52, - 122.68), (35.22, - 80.84), (33.45, - 112.07),
      (37.77, - 122.42), (30.26, - 97.74), (46.87, - 96.78),
      (43.04, - 87.91), (35.15, - 90.05), (36.17, - 86.78),
      (27.95, - 82.46), (41.26, - 95.93)]"

text \<open>
  One observation of the AirNow reply. The keys read with a default are optional; the
  coordinates are taken as present.
\<close>

record observation =
  ReportingArea :: "string option"
  Latitude :: real
  Longitude :: real
  AQI :: "real option"
  CategoryName :: "string option"
  DateObserved :: "string option"

text \<open>
  What \<open>session.get\<close> gives for one coordinate: a reply with its status and parsed body, or
  an exception anywhere inside the \<open>try\<close> block.
\<close>

datatype reply = Reply nat "observation list" | Raised

text \<open>
  The body of the loop over \<open>data\<close>: \<open>not d.get("AQI")\<close> holds for a missing value and
  for zero, and such an observation is skipped.
\<close>

definition to_station :: "observation \<Rightarrow> station option" where
  "to_station d =
     (case AQI d of
        None \<Rightarrow> None
      | Some v \<Rightarrow>
          if v = 0 then None
          else Some \<lparr> lat = Latitude d, lon = Longitude d, aqi = v,
                 category = (case CategoryName d of None \<Rightarrow> ''Unknown'' | Some c \<Rightarrow> c),
                 city = (case ReportingArea d of None \<Rightarrow> ''Unknown'' | Some c \<Rightarrow> c),
                 time = (case DateObserved d of None \<Rightarrow> [] | Some t \<Rightarrow> t) \<rparr>)"

definition fetch_station :: "reply \<Rightarrow> station list" where
  "fetch_station r =
     (case r of
        Reply status data \<Rightarrow> if status = 200 then List.map_filter to_station data else []
      | Raised \<Rightarrow> [])"

fun unique_loop :: "station list \<Rightarrow> (real \<times> real) set \<Rightarrow> station list" where
  "unique_loop [] seen = []"
| "unique_loop (s # rest) seen =
     (let key = (py_round_nd (lat s) 3, py_round_nd (lon s) 3)
      in if key \<notin> seen then s # unique_loop rest (insert key seen)
         else unique_loop rest seen)"

text \<open>\<open>net\<close> is the remote service: the outcome of the request made for each coordinate.\<close>

definition fetch_all_aqi :: "(real \<times> real \<Rightarrow> reply) \<Rightarrow> station list" where
  "fetch_all_aqi net =
     (let results = map (\<lambda>(la, lo). fetch_station (net (la, lo))) COORDS;
          all_data = concat results
      in unique_loop all_data {})"

section \<open>The Earthdata adapter (\<open>login\<close>, \<open>fetch_aod_granules\<close>)\<close>

datatype login_outcome = Authenticated | NotAuthenticated | LoginRaised

datatype search_outcome = Found nat | SearchRaised

text \<open>\<open>login\<close> returns the auth object, or \<open>None\<close> after an exception; the flag is its truth value.\<close>

definition login :: "login_outcome \<Rightarrow> bool" where
  "login l = (case l of Authenticated \<Rightarrow> True | NotAuthenticated \<Rightarrow> False | LoginRaised \<Rightarrow> False)"

text \<open>
  The 250 simulated points; \<open>draws i\<close> holds the three random numbers of round \<open>i\<close>
  (latitude, longitude, the normal sample).
\<close>

definition fetch_aod_granules :: "login_outcome \<Rightarrow> search_outcome \<Rightarrow> (nat \<Rightarrow> real \<times> real \<times> real)
    \<Rightarrow> aod_point list" where
  "fetch_aod_granules l s draws =
     (if \<not> login l then []
      else case s of
        Found n \<Rightarrow>
          map (\<lambda>i. case draws i of (la, lo, g) \<Rightarrow>
                 \<lparr> lat = la, lon = lo, aod = min (max (py_round_nd \<bar>g\<bar> 3) 0.01) 1.5 \<rparr>)
            [0 ..< 250]
      | SearchRaised \<Rightarrow> [])"

section \<open>The cached fetchers (\<open>fetch_aqi_data\<close>, \<open>fetch_aod_data\<close>)\<close>

text \<open>
  The cache file, when it exists, has a modification time and a content that
  \<open>json.load\<close> either parses to a payload or rejects. A run is taken as instantaneous:
  the file written in a run carries the clock value \<open>now\<close> read in that run.
\<close>

datatype 'a content = Json 'a | Corrupt

record 'a cache_file =
  mtime :: real
  content :: "'a content"

datatype error = JSONDecodeError

text \<open>
  What a run leaves behind: the value returned or the exception raised, the cache file
  afterwards, and how many times the fetch-and-smooth step ran.
\<close>

record 'a outcome =
  returned :: "error + 'a"
  cache :: "'a cache_file option"
  computed :: nat

text \<open>The file guarded by \<open>CACHE_FILE.exists()\<close> and \<open>age < 2\<close>, common to both fetchers.\<close>

definition fresh :: "real \<Rightarrow> 'a cache_file option \<Rightarrow> 'a cache_file option" where
  "fresh now c =
     (case c of
        None \<Rightarrow> None
      | Some f \<Rightarrow> (let age = (now - mtime f) / 3600 in if age < 2 then Some f else None))"

text \<open>\<open>json.load(open(CACHE_FILE))\<close>\<close>

definition load :: "'a cache_file \<Rightarrow> error + 'a" where
  "load f = (case content f of Json d \<Rightarrow> Inr d | Corrupt \<Rightarrow> Inl JSONDecodeError)"

text \<open>The file left by \<open>json.dump(data, f, indent=2)\<close> on the file opened for writing.\<close>

definition dump :: "real \<Rightarrow> 'a \<Rightarrow> 'a cache_file" where
  "dump now d = \<lparr> mtime = now, content = Json d \<rparr>"

definition fetch_aqi_data :: "real \<Rightarrow> aqi_point list cache_file option \<Rightarrow> (real \<times> real \<Rightarrow> reply)
    \<Rightarrow> aqi_point list outcome" where
  "fetch_aqi_data now c net =
     (case fresh now c of
        Some f \<Rightarrow> \<lparr> returned = load f, cache = c, computed = 0 \<rparr>
      | None \<Rightarrow>
          (let data = fetch_all_aqi net;
               data = smooth_aqi_points data 150
           in \<lparr> returned = Inr data, cache = Some (dump now data), computed = 1 \<rparr>))"

definition fetch_aod_data :: "real \<Rightarrow> aod_point list cache_file option \<Rightarrow> login_outcome
    \<Rightarrow> search_outcome \<Rightarrow> (nat \<Rightarrow> real \<times> real \<times> real) \<Rightarrow> (nat \<Rightarrow> real) \<Rightarrow> aod_point list outcome" where
  "fetch_aod_data now c l s draws rnd =
     (case fresh now c of
        Some f \<Rightarrow> \<lparr> returned = load f, cache = c, computed = 0 \<rparr>
      | None \<Rightarrow>
          (let raw = fetch_aod_granules l s draws;
               smoothed = smooth_aod_points raw 2 rnd
           in \<lparr> returned = Inr smoothed, cache = Some (dump now smoothed), computed = 1 \<rparr>))"

section \<open>Example inputs\<close>

text \<open>Three stations on the meridian 100 W, one degree of latitude apart.\<close>

definition station_a :: station where
  "station_a = \<lparr> lat = 40, lon = - 100, aqi = 50, category = ''Good'', city = ''A'', time = [] \<rparr>"

definition station_b :: station where
  "station_b = \<lparr> lat = 41, lon = - 100, aqi = 60, category = ''Moderate'', city = ''B'', time = [] \<rparr>"

definition station_c :: station where
  "station_c = \<lparr> lat = 42, lon = - 100, aqi = 70, category = ''Moderate'', city = ''C'', time = [] \<rparr>"

text \<open>The single point of the specification's grid scenario, as an AQI and as an AOD point.\<close>

definition lone_point :: aqi_point where
  "lone_point = \<lparr> lat = 40, lon = - 100, aqi = 30, category = ''Good'' \<rparr>"

definition lone_aod :: aod_point where
  "lone_aod = \<lparr> lat = 40, lon = - 100, aod = 30 \<rparr>"

text \<open>Two points one degree east and west of the lattice coordinate (25, -125).\<close>

definition east_point :: aqi_point where
  "east_point = \<lparr> lat = 25, lon = - 124, aqi = 50, category = ''Good'' \<rparr>"

definition west_point :: aqi_point where
  "west_point = \<lparr> lat = 25, lon = - 126, aqi = 51, category = ''Good'' \<rparr>"

text \<open>A point east of the same coordinate whose value is not an integer.\<close>

definition half_point :: aqi_point where
  "half_point = \<lparr> lat = 25, lon = - 124, aqi = 50.5, category = ''Good'' \<rparr>"

text \<open>The two points of the specification's clustering scenario, and a variant of the second.\<close>

definition scenario_a :: aqi_point where
  "scenario_a = \<lparr> lat = 40, lon = - 100, aqi = 50, category = ''Good'' \<rparr>"

definition scenario_b :: aqi_point where
  "scenario_b = \<lparr> lat = 40.001, lon = - 100.001, aqi = 54, category = ''Good'' \<rparr>"

definition scenario_c :: aqi_point where
  "scenario_c = \<lparr> lat = 40.001, lon = - 100.001, aqi = 51, category = ''Good'' \<rparr>"

text \<open>Two tapes of draws of \<open>random.uniform(-0.3, 0.3)\<close>.\<close>

definition tape_zero :: "nat \<Rightarrow> real" where
  "tape_zero k = 0"

definition tape_tenth :: "nat \<Rightarrow> real" where
  "tape_tenth k = 1 / 10"

text \<open>
  A remote service that fails every request, draws for the simulated granules, and cache
  files written at clock value 0: two with a payload, two that do not parse.
\<close>

definition net_down :: "real \<times> real \<Rightarrow> reply" where
  "net_down c = Raised"

definition zero_draws :: "nat \<Rightarrow> real \<times> real \<times> real" where
  "zero_draws i = (30, - 100, 0)"

definition hazy_cell :: aod_point where
  "hazy_cell = \<lparr> lat = 25.2, lon = - 124.9, aod = 0.153 \<rparr>"

definition aqi_entry :: "aqi_point list cache_file" where
  "aqi_entry = \<lparr> mtime = 0, content = Json [lone_point] \<rparr>"

definition aod_entry :: "aod_point list cache_file" where
  "aod_entry = \<lparr> mtime = 0, content = Json [hazy_cell] \<rparr>"

definition corrupt_entry :: "aqi_point list cache_file" where
  "corrupt_entry = \<lparr> mtime = 0, content = Corrupt \<rparr>"

definition corrupt_aod_entry :: "aod_point list cache_file" where
  "corrupt_aod_entry = \<lparr> mtime = 0, content = Corrupt \<rparr>"

section \<open>Facts about the distance\<close>

lemma pi_ge_three: "3 \<le> pi"
proof -
  have "sin (pi/6) \<le> pi/6" by (rule sin_x_le_x) simp
  then show ?thesis by (simp add: sin_30)
qed

lemma cos_diff_times_cos_add:
  "cos (v - u) * cos (v + u) = (cos v)\<^sup>2 - (sin u)\<^sup>2" for u v :: real
proof -
  have "cos (v - u) * cos (v + u) = (cos v * cos u)\<^sup>2 - (sin v * sin u)\<^sup>2"
    by (simp add: cos_diff cos_add power2_eq_square algebra_simps)
  also have "\<dots> = (cos v)\<^sup>2 * (1 - (sin u)\<^sup>2) - (1 - (cos v)\<^sup>2) * (sin u)\<^sup>2"
    by (simp add: power_mult_distrib cos_squared_eq[of u] sin_squared_eq[of v])
  also have "\<dots> = (cos v)\<^sup>2 - (sin u)\<^sup>2"
    by (simp add: algebra_simps)
  finally show ?thesis .
qed

lemma haversine_a_split:
  fixes lat1 lon1 lat2 lon2 :: real
  defines "u \<equiv> radians (lat2 - lat1) / 2"
    and "v \<equiv> (radians lat1 + radians lat2) / 2"
    and "s \<equiv> (sin (radians (lon2 - lon1) / 2))\<^sup>2"
  shows "haversine_a lat1 lon1 lat2 lon2 = (sin u)\<^sup>2 * (1 - s) + s * (cos v)\<^sup>2"
    and "1 - haversine_a lat1 lon1 lat2 lon2 = (cos u)\<^sup>2 * (1 - s) + s * (sin v)\<^sup>2"
proof -
  have r1: "radians lat1 = v - u" and r2: "radians lat2 = v + u"
    by (simp_all add: u_def v_def radians_def field_simps)
  have "cos (radians lat1) * cos (radians lat2) = (cos v)\<^sup>2 - (sin u)\<^sup>2"
    unfolding r1 r2 by (rule cos_diff_times_cos_add)
  then have a: "haversine_a lat1 lon1 lat2 lon2 = (sin u)\<^sup>2 + ((cos v)\<^sup>2 - (sin u)\<^sup>2) * s"
    by (simp add: haversine_a_def Let_def u_def s_def)
  show "haversine_a lat1 lon1 lat2 lon2 = (sin u)\<^sup>2 * (1 - s) + s * (cos v)\<^sup>2"
    unfolding a by (simp add: algebra_simps)
  show "1 - haversine_a lat1 lon1 lat2 lon2 = (cos u)\<^sup>2 * (1 - s) + s * (sin v)\<^sup>2"
    unfolding a by (simp add: algebra_simps cos_squared_eq[of u] sin_squared_eq[of v])
qed

lemma haversine_a_range:
  "0 \<le> haversine_a lat1 lon1 lat2 lon2" "haversine_a lat1 lon1 lat2 lon2 \<le> 1"
proof -
  let ?s = "(sin (radians (lon2 - lon1) / 2))\<^sup>2"
  have s0: "0 \<le> ?s" by simp
  have "\<bar>sin (radians (lon2 - lon1) / 2)\<bar> \<le> 1" by (rule abs_sin_le_one)
  then have s1: "0 \<le> 1 - ?s" by (simp add: abs_square_le_1)
  show "0 \<le> haversine_a lat1 lon1 lat2 lon2"
    unfolding haversine_a_split(1) using s0 s1 by (intro add_nonneg_nonneg mult_nonneg_nonneg) simp_all
  have "0 \<le> 1 - haversine_a lat1 lon1 lat2 lon2"
    unfolding haversine_a_split(2) using s0 s1 by (intro add_nonneg_nonneg mult_nonneg_nonneg) simp_all
  then show "haversine_a lat1 lon1 lat2 lon2 \<le> 1" by simp
qed

lemma atan2_nonneg: "0 \<le> y \<Longrightarrow> 0 \<le> x \<Longrightarrow> 0 \<le> atan2 y x"
  by (simp add: atan2_def)

lemma haversine_nonneg: "0 \<le> haversine lat1 lon1 lat2 lon2"
proof -
  have "0 \<le> atan2 (sqrt (haversine_a lat1 lon1 lat2 lon2)) (sqrt (1 - haversine_a lat1 lon1 lat2 lon2))"
    by (rule atan2_nonneg) (simp_all add: haversine_a_range)
  then show ?thesis by (simp add: haversine_def Let_def)
qed

lemma haversine_same_lon:
  assumes "\<bar>lat2 - lat1\<bar> < 180"
  shows "haversine lat1 lo lat2 lo = 6371 * pi * \<bar>lat2 - lat1\<bar> / 180"
proof -
  define x where "x = \<bar>radians (lat2 - lat1) / 2\<bar>"
  have x_eq: "x = \<bar>lat2 - lat1\<bar> * pi / 360"
    by (simp add: x_def radians_def abs_mult)
  have x0: "0 \<le> x" by (simp add: x_def)
  have "\<bar>lat2 - lat1\<bar> * pi < 180 * pi" using assms by simp
  then have x1: "x < pi / 2" by (simp add: x_eq)
  have cx: "0 < cos x" using x0 x1 by (intro cos_gt_zero_pi) linarith+
  have sx: "0 \<le> sin x" using x0 x1 by (intro sin_ge_zero) linarith+
  have "haversine_a lat1 lo lat2 lo = (sin (radians (lat2 - lat1) / 2))\<^sup>2"
    by (simp add: haversine_a_def Let_def radians_def)
  also have "\<dots> = (sin x)\<^sup>2"
    unfolding x_def by (cases "0 \<le> radians (lat2 - lat1) / 2") (simp_all add: abs_if)
  finally have a: "haversine_a lat1 lo lat2 lo = (sin x)\<^sup>2" .
  have sa: "sqrt (haversine_a lat1 lo lat2 lo) = sin x"
    unfolding a using sx by simp
  have "1 - haversine_a lat1 lo lat2 lo = (cos x)\<^sup>2"
    unfolding a by (simp add: cos_squared_eq)
  then have sb: "sqrt (1 - haversine_a lat1 lo lat2 lo) = cos x"
    using cx by simp
  have "atan2 (sin x) (cos x) = arctan (tan x)"
    using cx by (simp add: atan2_def tan_def)
  also have "\<dots> = x" using x0 x1 by (intro arctan_tan) linarith+
  finally have "atan2 (sin x) (cos x) = x" .
  then have "haversine lat1 lo lat2 lo = 6371 * 2 * x"
    by (simp add: haversine_def Let_def sa sb)
  then show ?thesis by (simp add: x_eq)
qed


lemma arctan_le_self_nonneg: "0 \<le> x \<Longrightarrow> arctan x \<le> x"
proof -
  assume x: "0 \<le> x"
  have "(\<lambda>t. t - arctan t) 0 \<le> (\<lambda>t. t - arctan t) x"
  proof (rule DERIV_nonneg_imp_nondecreasing[OF x])
    fix t :: real
    assume "0 \<le> t"
    have "((\<lambda>t. t - arctan t) has_real_derivative (1 - inverse (1 + t\<^sup>2))) (at t)"
      by (auto intro!: derivative_eq_intros)
    moreover have "0 \<le> 1 - inverse (1 + t\<^sup>2)"
      by (simp add: inverse_le_1_iff add_nonneg_pos)
    ultimately show "\<exists>y. ((\<lambda>t. t - arctan t) has_real_derivative y) (at t) \<and> 0 \<le> y"
      by blast
  qed
  then show ?thesis by simp
qed

lemma sin_squared_le: "(sin x)\<^sup>2 \<le> x\<^sup>2" for x :: real
  using abs_sin_x_le_abs_x[of x] by (simp add: abs_le_square_iff)

lemma haversine_a_le:
  "haversine_a lat1 lon1 lat2 lon2 \<le> (radians (lat2 - lat1) / 2)\<^sup>2 + (radians (lon2 - lon1) / 2)\<^sup>2"
proof -
  let ?t = "(sin (radians (lon2 - lon1) / 2))\<^sup>2"
  have "\<bar>cos (radians lat1) * cos (radians lat2)\<bar> \<le> 1 * 1"
    unfolding abs_mult by (intro mult_mono) simp_all
  then have "cos (radians lat1) * cos (radians lat2) \<le> 1" by simp
  then have "cos (radians lat1) * cos (radians lat2) * ?t \<le> 1 * ?t"
    by (intro mult_right_mono) simp_all
  also have "\<dots> \<le> (radians (lon2 - lon1) / 2)\<^sup>2" using sin_squared_le by simp
  finally have "cos (radians lat1) * cos (radians lat2) * ?t \<le> (radians (lon2 - lon1) / 2)\<^sup>2" .
  moreover have "(sin (radians (lat2 - lat1) / 2))\<^sup>2 \<le> (radians (lat2 - lat1) / 2)\<^sup>2"
    by (rule sin_squared_le)
  ultimately show ?thesis by (simp add: haversine_a_def Let_def)
qed

lemma haversine_small:
  assumes a: "haversine_a lat1 lon1 lat2 lon2 \<le> 1 / 4000000000"
  shows "haversine lat1 lon1 lat2 lon2 < 1"
proof -
  define a where "a = haversine_a lat1 lon1 lat2 lon2"
  have a0: "0 \<le> a" and a1: "a \<le> 1 / 4000000000"
    using assms haversine_a_range(1) by (simp_all add: a_def)
  have pos: "0 < 1 - a" using a1 by simp
  then have spos: "0 < sqrt (1 - a)" by simp
  have "a * 2500000001 \<le> 1" using a1 by simp
  then have "a \<le> (1 - a) * (1 / 2500000000)" by (simp add: algebra_simps)
  then have "a / (1 - a) \<le> 1 / 2500000000"
    using pos by (simp add: pos_divide_le_eq mult.commute)
  then have "sqrt (a / (1 - a)) \<le> sqrt ((1 / 50000)\<^sup>2)"
    by (simp add: power2_eq_square)
  then have r: "sqrt a / sqrt (1 - a) \<le> 1 / 50000"
    by (simp add: real_sqrt_divide)
  have "atan2 (sqrt a) (sqrt (1 - a)) = arctan (sqrt a / sqrt (1 - a))"
    using spos by (simp add: atan2_def)
  also have "\<dots> \<le> sqrt a / sqrt (1 - a)"
    by (rule arctan_le_self_nonneg) (use a0 pos in simp)
  finally have "atan2 (sqrt a) (sqrt (1 - a)) \<le> 1 / 50000" using r by linarith
  then show ?thesis by (simp add: haversine_def Let_def a_def[symmetric])
qed

lemma pi_squared_le: "pi\<^sup>2 \<le> 16"
proof -
  have "pi * pi \<le> 4 * 4" using pi_less_4 by (intro mult_mono) simp_all
  then show ?thesis by (simp add: power2_eq_square)
qed

lemma haversine_scenario: "haversine 40 (- 100) (40001 / 1000) (- (100001 / 1000)) < 1"
proof (rule haversine_small)
  have "haversine_a 40 (- 100) (40001 / 1000) (- (100001 / 1000))
      \<le> (radians (40001 / 1000 - 40) / 2)\<^sup>2 + (radians (- (100001 / 1000) - (- 100)) / 2)\<^sup>2"
    by (rule haversine_a_le)
  also have "\<dots> = pi\<^sup>2 / 64800000000"
    by (simp add: radians_def power2_eq_square)
  also have "\<dots> \<le> 16 / 64800000000" using pi_squared_le by simp
  also have "\<dots> \<le> 1 / 4000000000" by simp
  finally show "haversine_a 40 (- 100) (40001 / 1000) (- (100001 / 1000)) \<le> 1 / 4000000000" .
qed



lemma one_degree_near: "6371 * pi / 180 < 150"
  using pi_less_4 by simp

lemma two_degrees_far: "\<not> 6371 * pi * 2 / 180 < 150"
  using pi_ge_three by simp

lemma chain_distances:
  "haversine 40 (- 100) 41 (- 100) < 150"
  "haversine 41 (- 100) 40 (- 100) < 150"
  "haversine 41 (- 100) 42 (- 100) < 150"
  "haversine 42 (- 100) 41 (- 100) < 150"
  "\<not> haversine 40 (- 100) 42 (- 100) < 150"
  "\<not> haversine 42 (- 100) 40 (- 100) < 150"
  using one_degree_near two_degrees_far by (simp_all add: haversine_same_lon)

section \<open>Facts about rounding, the lattice and the neighbours\<close>

lemma length_nearest: "length (nearest la lo points) = min 5 (length points)"
  by (simp add: nearest_def min.commute)

lemma nearest_Nil_iff: "nearest la lo points = [] \<longleftrightarrow> points = []"
  by (cases points) (simp_all add: nearest_def)

lemma nearest_single: "nearest la lo [p] = [p]"
  by (simp add: nearest_def)

lemma filled_Nil: "filled [] cells = []"
  by (induction cells) (auto simp: nearest_def)

lemma filled_map:
  "points \<noteq> [] \<Longrightarrow>
     filled points cells
       = map (\<lambda>(la, lo). aqi_cell (nearest (of_int la) (of_int lo) points) la lo) cells"
  by (induction cells) (auto simp: nearest_Nil_iff Let_def)

lemma aod_loop_Nil: "aod_loop [] cells rnd k = []"
  by (induction cells arbitrary: k) (auto simp: nearest_def)

lemma aod_loop_map:
  "points \<noteq> [] \<Longrightarrow>
     aod_loop points cells rnd k
       = map (\<lambda>(i, la, lo). aod_cell (nearest la lo points) la lo (rnd (k + 2 * i)) (rnd (k + 2 * i + 1)))
           (enumerate 0 cells)"
proof (induction cells arbitrary: k)
  case Nil
  then show ?case by simp
next
  case (Cons c cells)
  obtain la lo where c: "c = (la, lo)" by (cases c)
  have "aod_loop points (c # cells) rnd k
      = aod_cell (nearest la lo points) la lo (rnd k) (rnd (k + 1)) # aod_loop points cells rnd (k + 2)"
    using Cons.prems by (simp add: c nearest_Nil_iff Let_def)
  also have "aod_loop points cells rnd (k + 2)
      = map (\<lambda>(i, la, lo). aod_cell (nearest la lo points) la lo (rnd (k + 2 + 2 * i)) (rnd (k + 2 + 2 * i + 1)))
           (enumerate 0 cells)"
    by (rule Cons.IH[OF Cons.prems])
  also have "\<dots> = map (\<lambda>(i, la, lo). aod_cell (nearest la lo points) la lo (rnd (k + 2 * i)) (rnd (k + 2 * i + 1)))
           (enumerate (Suc 0) cells)"
    by (simp add: enumerate_Suc_eq[of 0] split_def apfst_def map_prod_def)
  finally show ?case by (simp add: c)
qed

lemma aqi_lat_range_eq: "aqi_lat_range = [25, 27, 29, 31, 33, 35, 37, 39, 41, 43, 45, 47, 49]"
  by (simp add: aqi_lat_range_def py_range_def upt_rec)

lemma aqi_lon_range_eq: "aqi_lon_range = [- 125, - 123, - 121, - 119, - 117, - 115, - 113, - 111, - 109, - 107,
  - 105, - 103, - 101, - 99, - 97, - 95, - 93, - 91, - 89, - 87, - 85, - 83, - 81, - 79, - 77, - 75, - 73, - 71, - 69, - 67]"
  by (simp add: aqi_lon_range_def py_range_def upt_rec)

lemma length_aqi_lattice: "length (List.product aqi_lat_range aqi_lon_range) = 390"
  by (simp add: aqi_lat_range_def aqi_lon_range_def py_range_def)

lemma py_round_near: "\<bar>of_int (py_round x) - x\<bar> \<le> 1 / 2"
proof -
  have "of_int \<lfloor>x\<rfloor> \<le> x" "x < of_int \<lfloor>x\<rfloor> + 1" by linarith+
  then show ?thesis by (auto simp: py_round_def Let_def)
qed

lemma py_round_nd_near: "\<bar>py_round_nd x 3 - x\<bar> \<le> 1 / 2000"
proof -
  have "\<bar>of_int (py_round (x * 1000)) - x * 1000\<bar> \<le> 1 / 2" by (rule py_round_near)
  then show ?thesis by (simp add: py_round_nd_def field_simps abs_if split: if_splits)
qed

lemma py_round_ge: "of_int a \<le> x \<Longrightarrow> a \<le> py_round x"
proof -
  assume "of_int a \<le> x"
  then have "a \<le> \<lfloor>x\<rfloor>" by (simp add: le_floor_iff)
  then show ?thesis by (simp add: py_round_def Let_def)
qed

lemma py_round_le: "x \<le> of_int b \<Longrightarrow> py_round x \<le> b"
proof -
  assume x: "x \<le> of_int b"
  have f: "\<lfloor>x\<rfloor> \<le> b" using x by (simp add: floor_le_iff)
  show ?thesis
  proof (cases "x - of_int \<lfloor>x\<rfloor> < 1 / 2")
    case True
    then show ?thesis using f by (simp add: py_round_def Let_def)
  next
    case False
    then have "of_int \<lfloor>x\<rfloor> < x" by simp
    with x have "of_int \<lfloor>x\<rfloor> < (of_int b :: real)" by linarith
    then have "\<lfloor>x\<rfloor> + 1 \<le> b" by simp
    then show ?thesis using f by (simp add: py_round_def Let_def)
  qed
qed

section \<open>Facts about the weighted mean\<close>

lemma weight_pos: "0 < 1 / (haversine la lo la' lo' + 1)"
  using haversine_nonneg[of la lo la' lo'] by simp

lemma weight_nonneg: "0 \<le> 1 / (haversine la lo la' lo' + 1)"
  using haversine_nonneg[of la lo la' lo'] by simp

lemma sum_weights_pos: "ns \<noteq> [] \<Longrightarrow> 0 < sum_list (weights la lo ns)"
proof (induction ns)
  case Nil
  then show ?case by simp
next
  case (Cons n ns)
  have a: "0 < 1 / (haversine la lo (lat n) (lon n) + 1)" by (rule weight_pos)
  have b: "0 \<le> sum_list (weights la lo ns)"
    unfolding weights_def by (rule sum_list_nonneg) (auto intro: weight_nonneg)
  have "sum_list (weights la lo (n # ns))
      = 1 / (haversine la lo (lat n) (lon n) + 1) + sum_list (weights la lo ns)"
    by (simp add: weights_def)
  then show ?case using add_pos_nonneg[OF a b] by (simp only:)
qed

lemma weighted_sum_zip:
  "sum_list (map (\<lambda>(n, w). val n * w) (zip ns (map f ns))) = sum_list (map (\<lambda>n. val n * f n) ns)"
  by (induction ns) simp_all

lemma weighted_sum_lower:
  fixes val f :: "'a \<Rightarrow> real"
  assumes "\<And>n. n \<in> set ns \<Longrightarrow> b \<le> val n" "\<And>n. n \<in> set ns \<Longrightarrow> 0 \<le> f n"
  shows "b * sum_list (map f ns) \<le> sum_list (map (\<lambda>n. val n * f n) ns)"
  using assms
proof (induction ns)
  case Nil
  then show ?case by simp
next
  case (Cons n ns)
  have "b * f n \<le> val n * f n"
    by (rule mult_right_mono) (simp_all add: Cons.prems)
  moreover have "b * sum_list (map f ns) \<le> sum_list (map (\<lambda>n. val n * f n) ns)"
    by (rule Cons.IH) (simp_all add: Cons.prems)
  ultimately show ?case by (simp add: distrib_left)
qed

lemma weighted_sum_upper:
  fixes val f :: "'a \<Rightarrow> real"
  assumes "\<And>n. n \<in> set ns \<Longrightarrow> val n \<le> b" "\<And>n. n \<in> set ns \<Longrightarrow> 0 \<le> f n"
  shows "sum_list (map (\<lambda>n. val n * f n) ns) \<le> b * sum_list (map f ns)"
  using assms
proof (induction ns)
  case Nil
  then show ?case by simp
next
  case (Cons n ns)
  have "val n * f n \<le> b * f n"
    by (rule mult_right_mono) (simp_all add: Cons.prems)
  moreover have "sum_list (map (\<lambda>n. val n * f n) ns) \<le> b * sum_list (map f ns)"
    by (rule Cons.IH) (simp_all add: Cons.prems)
  ultimately show ?case by (simp add: distrib_left)
qed

lemma weighted_avg_bounds:
  fixes ns :: "'a geo_scheme list"
  assumes "ns \<noteq> []"
  shows "Min (set (map val ns)) \<le> weighted_avg val ns (weights la lo ns)"
    and "weighted_avg val ns (weights la lo ns) \<le> Max (set (map val ns))"
proof -
  let ?f = "\<lambda>n. 1 / (haversine la lo (lat n) (lon n) + 1)"
  let ?S = "sum_list (map (\<lambda>n. val n * ?f n) ns)"
  have W: "weights la lo ns = map ?f ns" by (simp add: weights_def)
  have pos: "0 < sum_list (map ?f ns)" using sum_weights_pos[OF assms, of la lo] by (simp only: W)
  have avg: "weighted_avg val ns (weights la lo ns) = ?S / sum_list (map ?f ns)"
    by (simp only: weighted_avg_def W weighted_sum_zip)
  have "Min (set (map val ns)) * sum_list (map ?f ns) \<le> ?S"
  proof (rule weighted_sum_lower)
    fix n :: "'a geo_scheme"
    assume "n \<in> set ns"
    then show "Min (set (map val ns)) \<le> val n" by simp
  next
    fix n :: "'a geo_scheme"
    show "0 \<le> ?f n" by (rule weight_nonneg)
  qed
  then show "Min (set (map val ns)) \<le> weighted_avg val ns (weights la lo ns)"
    unfolding avg using pos by (simp only: pos_le_divide_eq)
  have "?S \<le> Max (set (map val ns)) * sum_list (map ?f ns)"
  proof (rule weighted_sum_upper)
    fix n :: "'a geo_scheme"
    assume "n \<in> set ns"
    then show "val n \<le> Max (set (map val ns))" by simp
  next
    fix n :: "'a geo_scheme"
    show "0 \<le> ?f n" by (rule weight_nonneg)
  qed
  then show "weighted_avg val ns (weights la lo ns) \<le> Max (set (map val ns))"
    unfolding avg using pos by (simp only: pos_divide_le_eq)
qed

lemma weighted_avg_single: "weighted_avg val [p] (weights la lo [p]) = val p"
  using weight_pos[of la lo "lat p" "lon p"] by (simp add: weighted_avg_def weights_def)


text \<open>
  The bounds of \<open>weighted_avg_bounds\<close> are facts of the exact mean. Rounding carries
  them over to the emitted value when the ends of the interval are themselves values
  that the rounding leaves fixed.
\<close>

lemma Min_Max_in_image:
  assumes "ns \<noteq> []"
  shows "\<exists>n\<in>set ns. Min (set (map val ns)) = val n" "\<exists>n\<in>set ns. Max (set (map val ns)) = val n"
proof -
  have fin: "finite (set (map val ns))" and ne: "set (map val ns) \<noteq> {}" using assms by simp_all
  have "Min (set (map val ns)) \<in> set (map val ns)" by (rule Min_in[OF fin ne])
  then show "\<exists>n\<in>set ns. Min (set (map val ns)) = val n" by auto
  have "Max (set (map val ns)) \<in> set (map val ns)" by (rule Max_in[OF fin ne])
  then show "\<exists>n\<in>set ns. Max (set (map val ns)) = val n" by auto
qed

lemma rounded_avg_bounds:
  fixes ns :: "'a geo_scheme list" and val :: "'a geo_scheme \<Rightarrow> real"
  assumes "ns \<noteq> []" and "\<forall>n\<in>set ns. val n \<in> \<int>"
  shows "Min (set (map val ns)) \<le> of_int (py_round (weighted_avg val ns (weights la lo ns)))"
    and "of_int (py_round (weighted_avg val ns (weights la lo ns))) \<le> Max (set (map val ns))"
proof -
  have "Min (set (map val ns)) \<in> \<int>"
    using Min_Max_in_image(1)[OF assms(1), of val] assms(2) by auto
  then obtain a where a: "Min (set (map val ns)) = of_int a" by (rule Ints_cases)
  have "Max (set (map val ns)) \<in> \<int>"
    using Min_Max_in_image(2)[OF assms(1), of val] assms(2) by auto
  then obtain b where b: "Max (set (map val ns)) = of_int b" by (rule Ints_cases)
  have "of_int a \<le> weighted_avg val ns (weights la lo ns)"
    using weighted_avg_bounds(1)[OF assms(1), of val la lo] by (simp only: a)
  then have "a \<le> py_round (weighted_avg val ns (weights la lo ns))" by (rule py_round_ge)
  then show "Min (set (map val ns)) \<le> of_int (py_round (weighted_avg val ns (weights la lo ns)))"
    unfolding a by simp
  have "weighted_avg val ns (weights la lo ns) \<le> of_int b"
    using weighted_avg_bounds(2)[OF assms(1), of val la lo] by (simp only: b)
  then have "py_round (weighted_avg val ns (weights la lo ns)) \<le> b" by (rule py_round_le)
  then show "of_int (py_round (weighted_avg val ns (weights la lo ns))) \<le> Max (set (map val ns))"
    unfolding b by simp
qed

lemma rounded_nd_avg_bounds:
  fixes ns :: "'a geo_scheme list" and val :: "'a geo_scheme \<Rightarrow> real"
  assumes "ns \<noteq> []" and "\<forall>n\<in>set ns. val n * 1000 \<in> \<int>"
  shows "Min (set (map val ns)) \<le> py_round_nd (weighted_avg val ns (weights la lo ns)) 3"
    and "py_round_nd (weighted_avg val ns (weights la lo ns)) 3 \<le> Max (set (map val ns))"
proof -
  have "Min (set (map val ns)) * 1000 \<in> \<int>"
    using Min_Max_in_image(1)[OF assms(1), of val] assms(2) by auto
  then obtain a where a: "Min (set (map val ns)) * 1000 = of_int a" by (rule Ints_cases)
  have "Max (set (map val ns)) * 1000 \<in> \<int>"
    using Min_Max_in_image(2)[OF assms(1), of val] assms(2) by auto
  then obtain b where b: "Max (set (map val ns)) * 1000 = of_int b" by (rule Ints_cases)
  let ?avg = "weighted_avg val ns (weights la lo ns)"
  have "Min (set (map val ns)) * 1000 \<le> ?avg * 1000"
    using weighted_avg_bounds(1)[OF assms(1), of val la lo] by simp
  then have "of_int a \<le> ?avg * 1000" by (simp only: a)
  then have "a \<le> py_round (?avg * 1000)" by (rule py_round_ge)
  then have "(of_int a :: real) \<le> of_int (py_round (?avg * 1000))" by simp
  then have "Min (set (map val ns)) * 1000 \<le> of_int (py_round (?avg * 1000))" by (simp only: a)
  then show "Min (set (map val ns)) \<le> py_round_nd ?avg 3"
    by (simp add: py_round_nd_def field_simps)
  have "?avg * 1000 \<le> Max (set (map val ns)) * 1000"
    using weighted_avg_bounds(2)[OF assms(1), of val la lo] by simp
  then have "?avg * 1000 \<le> of_int b" by (simp only: b)
  then have "py_round (?avg * 1000) \<le> b" by (rule py_round_le)
  then have "(of_int (py_round (?avg * 1000)) :: real) \<le> of_int b" by simp
  then have "of_int (py_round (?avg * 1000)) \<le> Max (set (map val ns)) * 1000" by (simp only: b)
  then show "py_round_nd ?avg 3 \<le> Max (set (map val ns))"
    by (simp add: py_round_nd_def field_simps)
qed

section \<open>Empty input\<close>

text \<open>
  Claim C8: for the empty sequence of observations nothing is raised; clustering yields
  no cluster, the interpolators emit no cell for any lattice coordinate, and both
  smoothing functions return the empty list.
\<close>

theorem empty_input_empty_output:
  "smooth_aqi_points [] radius_km = []
   \<and> smoothed [] radius_km = []
   \<and> filled [] cells = []
   \<and> smooth_aod_points [] spacing rnd = []
   \<and> aod_loop [] rcells rnd k = []"
  by (simp add: smooth_aqi_points_def smooth_aod_points_def smoothed_def clusters_def
      filled_Nil aod_loop_Nil)

section \<open>The layout of the AQI result\<close>

lemma aqi_cell_fields:
  "aqi_cell ns la lo =
     \<lparr> lat = of_int la + 1 / 2, lon = of_int lo + 1 / 2,
       aqi = of_int (py_round (weighted_avg aqi ns (weights (of_int la) (of_int lo) ns))),
       category = ''Interpolated'' \<rparr>"
  by (simp add: aqi_cell_def Let_def)

text \<open>
  Claim C10: for a non-empty input \<open>smooth_aqi_points\<close> returns the cluster
  representatives followed by one cell for each of the 13 x 30 = 390 lattice coordinates
  (latitudes 25, 27, ..., 49, longitudes -125, -123, ..., -67, latitude-major). Each cell
  sits half a degree north and east of its coordinate, is labelled \<open>Interpolated\<close>, and
  carries the weighted mean of its neighbours rounded to a nearest integer, whatever the
  number of neighbours.
\<close>

theorem smooth_aqi_points_layout:
  assumes "points \<noteq> []"
  shows "smooth_aqi_points points radius_km
       = smoothed points radius_km
         @ map (\<lambda>(la, lo).
                 \<lparr> lat = of_int la + 1 / 2, lon = of_int lo + 1 / 2,
                   aqi = of_int (py_round
                           (weighted_avg aqi (nearest (of_int la) (of_int lo) points)
                              (weights (of_int la) (of_int lo)
                                 (nearest (of_int la) (of_int lo) points)))),
                   category = ''Interpolated'' \<rparr>)
             (List.product aqi_lat_range aqi_lon_range)
     \<and> aqi_lat_range = [25, 27, 29, 31, 33, 35, 37, 39, 41, 43, 45, 47, 49]
     \<and> aqi_lon_range = [- 125, - 123, - 121, - 119, - 117, - 115, - 113, - 111, - 109, - 107,
          - 105, - 103, - 101, - 99, - 97, - 95, - 93, - 91, - 89, - 87, - 85, - 83, - 81, - 79,
          - 77, - 75, - 73, - 71, - 69, - 67]
     \<and> length (List.product aqi_lat_range aqi_lon_range) = 390
     \<and> (\<forall>x. \<bar>of_int (py_round x) - x\<bar> \<le> 1 / 2)"
proof -
  have "smooth_aqi_points points radius_km
       = smoothed points radius_km
         @ map (\<lambda>(la, lo). aqi_cell (nearest (of_int la) (of_int lo) points) la lo)
             (List.product aqi_lat_range aqi_lon_range)"
    using assms by (simp add: smooth_aqi_points_def filled_map)
  then show ?thesis
    by (simp only: aqi_cell_fields aqi_lat_range_eq[symmetric] aqi_lon_range_eq[symmetric]
        length_aqi_lattice py_round_near simp_thms)
qed

text \<open>Claim C10 at a one-station input: the hypothesis holds and 390 cells follow the clusters.\<close>

theorem smooth_aqi_points_layout_witness:
  "[station_a] \<noteq> []
   \<and> length (smooth_aqi_points [station_a] 150) = length (smoothed [station_a] 150) + 390"
proof -
  have ne: "[station_a] \<noteq> []" by simp
  show ?thesis
    using smooth_aqi_points_layout[OF ne, of 150] by simp
qed

section \<open>A single input point\<close>

lemma clusters_single: "clusters [p] radius_km = [[p]]"
  by (simp add: clusters_def near_def)

lemma representative_single:
  "representative [p]
     = \<lparr> lat = lat p, lon = lon p, aqi = of_int (py_round (aqi p)), category = category p \<rparr>"
  by (simp add: representative_def)

lemma py_round_of_int: "py_round (of_int n) = n"
  by (simp add: py_round_def)

lemma py_round_nd_of_int: "py_round_nd (of_int n) 3 = of_int n"
proof -
  have "py_round (of_int n * 1000) = n * 1000"
    using py_round_of_int[of "n * 1000"] by simp
  then show ?thesis by (simp add: py_round_nd_def)
qed

lemma filled_single:
  "map aqi (filled [p] cells) = replicate (length cells) (of_int (py_round (aqi p)))"
  by (induction cells)
     (auto simp: nearest_single aqi_cell_def weighted_avg_single Let_def)

lemma aod_loop_single:
  "map aod (aod_loop [q] rcells rnd k) = replicate (length rcells) (py_round_nd (aod q) 3)"
  by (induction rcells arbitrary: k)
     (auto simp: nearest_single aod_cell_def weighted_avg_single Let_def)

text \<open>
  Claim C9: \<open>sorted(...)[:5]\<close> keeps \<open>min 5 |points|\<close> neighbours, and from a single
  point of value 30 every cell of either interpolator, over any list of lattice
  coordinates, has value exactly 30 (so does the point's own cluster representative).
\<close>

theorem single_point_cells:
  assumes "aqi p = 30" and "aod q = 30"
  shows "length (nearest la lo points) = min 5 (length points)
     \<and> map aqi (filled [p] cells) = replicate (length cells) 30
     \<and> map aqi (smooth_aqi_points [p] radius_km) = replicate 391 30
     \<and> map aod (aod_loop [q] rcells rnd k) = replicate (length rcells) 30
     \<and> map aod (smooth_aod_points [q] spacing rnd)
         = replicate (length (List.product (np_arange 25 49 spacing) (np_arange (- 125) (- 66) spacing))) 30"
proof -
  have r: "py_round 30 = 30" using py_round_of_int[of 30] by simp
  have rn: "py_round_nd 30 3 = 30" using py_round_nd_of_int[of 30] by simp
  have a: "map aqi (filled [p] cells) = replicate (length cells) 30" for cells
    by (simp add: filled_single assms r)
  have b: "map aod (aod_loop [q] rcells rnd k) = replicate (length rcells) 30" for rcells k
    by (simp add: aod_loop_single assms rn)
  have "map aqi (smooth_aqi_points [p] radius_km) = 30 # replicate 390 30"
    by (simp add: smooth_aqi_points_def smoothed_def clusters_single representative_single a
        length_aqi_lattice assms r del: length_product)
  also have "\<dots> = replicate 391 30" by (simp add: numeral_eq_Suc)
  finally have c: "map aqi (smooth_aqi_points [p] radius_km) = replicate 391 30" .
  have d: "map aod (smooth_aod_points [q] spacing rnd)
         = replicate (length (List.product (np_arange 25 49 spacing) (np_arange (- 125) (- 66) spacing))) 30"
    by (simp add: smooth_aod_points_def b del: length_product)
  show ?thesis using a b c d by (simp add: length_nearest)
qed

text \<open>
  Claim C9 on the specification's scenario: the point (40, -100) of value 30 and the
  lattice of spacing 2 over latitudes 38..42 and longitudes -102..-98.
\<close>

theorem single_point_cells_witness:
  "aqi lone_point = 30 \<and> aod lone_aod = 30
   \<and> map aqi (filled [lone_point] (List.product (py_range 38 43 2) (py_range (- 102) (- 97) 2)))
       = [30, 30, 30, 30, 30, 30, 30, 30, 30]
   \<and> length (nearest 38 (- 102) [lone_point]) = 1"
proof -
  have h1: "aqi lone_point = 30" and h2: "aod lone_aod = 30"
    by (simp_all add: lone_point_def lone_aod_def)
  have "length (List.product (py_range 38 43 2) (py_range (- 102) (- 97) 2)) = 9"
    by (simp add: py_range_def)
  then show ?thesis
    using single_point_cells[OF h1 h2, of 38 "- 102" "[lone_point]"
        "List.product (py_range 38 43 2) (py_range (- 102) (- 97) 2)"] h1 h2
    by (simp add: numeral_eq_Suc del: length_product)
qed

section \<open>The value of a cell\<close>

lemma east_west_equidistant:
  "haversine 25 (- 125) 25 (- 126) = haversine 25 (- 125) 25 (- 124)"
proof -
  have "haversine_a 25 (- 125) 25 (- 126) = haversine_a 25 (- 125) 25 (- 124)"
    by (simp add: haversine_a_def radians_def)
  then show ?thesis by (simp add: haversine_def)
qed

lemma nearest_east_west: "nearest 25 (- 125) [east_point, west_point] = [east_point, west_point]"
  by (simp add: nearest_def east_point_def west_point_def east_west_equidistant)

lemma weighted_avg_east_west:
  "weighted_avg aqi [east_point, west_point] (weights 25 (- 125) [east_point, west_point]) = 101 / 2"
proof -
  define w where "w = 1 / (haversine 25 (- 125) 25 (- 124) + 1)"
  have w: "0 < w" unfolding w_def by (rule weight_pos)
  have "weights 25 (- 125) [east_point, west_point] = [w, w]"
    by (simp add: weights_def east_point_def west_point_def east_west_equidistant w_def)
  then have "weighted_avg aqi [east_point, west_point] (weights 25 (- 125) [east_point, west_point])
      = (50 * w + 51 * w) / (w + w)"
    by (simp add: weighted_avg_def east_point_def west_point_def)
  also have "\<dots> = 101 / 2" using w by (simp add: field_simps)
  finally show ?thesis .
qed

text \<open>
  Claim C7 says that the emitted cell value is the weighted mean of the neighbours and
  lies between the least and the greatest neighbour value. Both modules round the mean
  before emitting it. At the lattice coordinate (25, -125) the two points one degree
  east (value 50) and west (value 51) are equally far, the weighted mean is 50.5, and the
  AQI cell carries 50. The rounding can also carry the emitted value past a neighbour
  value that is not an integer: from the single point of value 50.5 the cell carries 50,
  below the least neighbour value.
\<close>

theorem cell_value_not_weighted_mean:
  "map aqi (filled [east_point, west_point] [(25, - 125)]) = [50]
   \<and> weighted_avg aqi (nearest 25 (- 125) [east_point, west_point])
        (weights 25 (- 125) (nearest 25 (- 125) [east_point, west_point])) = 101 / 2
   \<and> map aqi (filled [east_point, west_point] [(25, - 125)])
       \<noteq> [weighted_avg aqi (nearest 25 (- 125) [east_point, west_point])
            (weights 25 (- 125) (nearest 25 (- 125) [east_point, west_point]))]
   \<and> map aqi (filled [half_point] [(25, - 125)]) = [50]
   \<and> Min (set (map aqi (nearest 25 (- 125) [half_point]))) = 101 / 2"
proof -
  have r: "py_round (101 / 2) = 50" by (simp add: py_round_def)
  have h: "aqi half_point = 101 / 2" by (simp add: half_point_def)
  have a: "map aqi (filled [east_point, west_point] [(25, - 125)]) = [50]"
    by (simp add: nearest_east_west aqi_cell_def weighted_avg_east_west r)
  have b: "weighted_avg aqi (nearest 25 (- 125) [east_point, west_point])
        (weights 25 (- 125) (nearest 25 (- 125) [east_point, west_point])) = 101 / 2"
    by (simp add: nearest_east_west weighted_avg_east_west)
  have c: "map aqi (filled [half_point] [(25, - 125)]) = [50]"
    by (simp add: nearest_single aqi_cell_def weighted_avg_single h r)
  have d: "Min (set (map aqi (nearest 25 (- 125) [half_point]))) = 101 / 2"
    by (simp add: nearest_single h)
  show ?thesis unfolding a b c d by simp
qed

text \<open>
  Claim C7 as amended: at a lattice coordinate with a non-empty input, the emitted value
  is the weighted mean \<open>\<Sum> value * w / \<Sum> w\<close> over the selected nearest neighbours, with
  weights \<open>1 / (distance + 1)\<close>, rounded: to a nearest integer in the AQI module, to
  three decimals in the AOD module. When the neighbour values are integers (AQI), or
  multiples of 0.001 (AOD), the emitted value lies between the least and the greatest
  neighbour value.
\<close>

theorem cell_value_rounded_weighted_mean:
  fixes points :: "'a aqi_point_scheme list" and apoints :: "'b aod_point_scheme list"
    and la lo :: int and rla rlo :: real
  assumes "points \<noteq> []" and "apoints \<noteq> []"
  defines "ns \<equiv> nearest (of_int la) (of_int lo) points"
    and "nearby \<equiv> nearest rla rlo apoints"
  defines "avg \<equiv> weighted_avg aqi ns (weights (of_int la) (of_int lo) ns)"
    and "aavg \<equiv> weighted_avg aod nearby (weights rla rlo nearby)"
  shows "filled points [(la, lo)]
       = [\<lparr> lat = of_int la + 1 / 2, lon = of_int lo + 1 / 2,
            aqi = of_int (py_round avg), category = ''Interpolated'' \<rparr>]
     \<and> avg = (\<Sum>n\<leftarrow>ns. aqi n * (1 / (haversine (of_int la) (of_int lo) (lat n) (lon n) + 1)))
             / (\<Sum>n\<leftarrow>ns. 1 / (haversine (of_int la) (of_int lo) (lat n) (lon n) + 1))
     \<and> \<bar>of_int (py_round avg) - avg\<bar> \<le> 1 / 2
     \<and> ((\<forall>n\<in>set ns. aqi n \<in> \<int>)
          \<longrightarrow> Min (set (map aqi ns)) \<le> of_int (py_round avg)
              \<and> of_int (py_round avg) \<le> Max (set (map aqi ns)))
     \<and> aod_loop apoints [(rla, rlo)] rnd k
       = [\<lparr> lat = rla + rnd k, lon = rlo + rnd (k + 1), aod = py_round_nd aavg 3 \<rparr>]
     \<and> aavg = (\<Sum>n\<leftarrow>nearby. aod n * (1 / (haversine rla rlo (lat n) (lon n) + 1)))
             / (\<Sum>n\<leftarrow>nearby. 1 / (haversine rla rlo (lat n) (lon n) + 1))
     \<and> \<bar>py_round_nd aavg 3 - aavg\<bar> \<le> 1 / 2000
     \<and> ((\<forall>n\<in>set nearby. aod n * 1000 \<in> \<int>)
          \<longrightarrow> Min (set (map aod nearby)) \<le> py_round_nd aavg 3
              \<and> py_round_nd aavg 3 \<le> Max (set (map aod nearby)))"
proof -
  have ns: "ns \<noteq> []" and nearby: "nearby \<noteq> []"
    using assms(1,2) by (simp_all add: ns_def nearby_def nearest_Nil_iff)
  have c1: "filled points [(la, lo)]
       = [\<lparr> lat = of_int la + 1 / 2, lon = of_int lo + 1 / 2,
            aqi = of_int (py_round avg), category = ''Interpolated'' \<rparr>]"
    using ns by (simp add: ns_def[symmetric] aqi_cell_def avg_def Let_def)
  have c2: "avg = (\<Sum>n\<leftarrow>ns. aqi n * (1 / (haversine (of_int la) (of_int lo) (lat n) (lon n) + 1)))
             / (\<Sum>n\<leftarrow>ns. 1 / (haversine (of_int la) (of_int lo) (lat n) (lon n) + 1))"
    by (simp only: avg_def weighted_avg_def weights_def weighted_sum_zip)
  have c3: "\<bar>of_int (py_round avg) - avg\<bar> \<le> 1 / 2" by (rule py_round_near)
  have c4: "(\<forall>n\<in>set ns. aqi n \<in> \<int>)
          \<longrightarrow> Min (set (map aqi ns)) \<le> of_int (py_round avg)
              \<and> of_int (py_round avg) \<le> Max (set (map aqi ns))"
    unfolding avg_def using rounded_avg_bounds[OF ns, of aqi] by blast
  have d1: "aod_loop apoints [(rla, rlo)] rnd k
       = [\<lparr> lat = rla + rnd k, lon = rlo + rnd (k + 1), aod = py_round_nd aavg 3 \<rparr>]"
    using nearby by (simp add: nearby_def[symmetric] aod_cell_def aavg_def Let_def)
  have d2: "aavg = (\<Sum>n\<leftarrow>nearby. aod n * (1 / (haversine rla rlo (lat n) (lon n) + 1)))
             / (\<Sum>n\<leftarrow>nearby. 1 / (haversine rla rlo (lat n) (lon n) + 1))"
    by (simp only: aavg_def weighted_avg_def weights_def weighted_sum_zip)
  have d3: "\<bar>py_round_nd aavg 3 - aavg\<bar> \<le> 1 / 2000" by (rule py_round_nd_near)
  have d4: "(\<forall>n\<in>set nearby. aod n * 1000 \<in> \<int>)
          \<longrightarrow> Min (set (map aod nearby)) \<le> py_round_nd aavg 3
              \<and> py_round_nd aavg 3 \<le> Max (set (map aod nearby))"
    unfolding aavg_def using rounded_nd_avg_bounds[OF nearby, of aod] by blast
  show ?thesis
    by (intro conjI c1 c2 c3 c4 d1 d2 d3 d4)
qed

text \<open>
  Claim C7 as amended, at the two equally distant points of values 50 and 51 and at a
  single AOD point of value 0.153: the emitted values lie in [50, 51] and [0.153, 0.153].
\<close>

theorem cell_value_rounded_weighted_mean_witness:
  "[east_point, west_point] \<noteq> [] \<and> [hazy_cell] \<noteq> []
   \<and> aqi east_point \<in> \<int> \<and> aqi west_point \<in> \<int> \<and> aod hazy_cell * 1000 \<in> \<int>
   \<and> map aqi (filled [east_point, west_point] [(25, - 125)])
       = [of_int (py_round (weighted_avg aqi [east_point, west_point]
            (weights 25 (- 125) [east_point, west_point])))]
   \<and> 50 \<le> real_of_int (py_round (weighted_avg aqi [east_point, west_point]
            (weights 25 (- 125) [east_point, west_point])))
   \<and> real_of_int (py_round (weighted_avg aqi [east_point, west_point]
            (weights 25 (- 125) [east_point, west_point]))) \<le> 51
   \<and> 153 / 1000 \<le> py_round_nd (weighted_avg aod [hazy_cell] (weights 25 (- 125) [hazy_cell])) 3
   \<and> py_round_nd (weighted_avg aod [hazy_cell] (weights 25 (- 125) [hazy_cell])) 3 \<le> 153 / 1000"
proof -
  have h1: "[east_point, west_point] \<noteq> []" and h2: "[hazy_cell] \<noteq> []" by simp_all
  have i1: "aqi east_point \<in> \<int>" and i2: "aqi west_point \<in> \<int>"
    by (simp_all add: east_point_def west_point_def)
  have i3: "aod hazy_cell * 1000 \<in> \<int>" by (simp add: hazy_cell_def)
  have n': "nearest 25 (- 125) [hazy_cell] = [hazy_cell]" by (rule nearest_single)
  have c: "real_of_int 25 = 25" "real_of_int (- 125) = - 125" by simp_all
  have m: "Min (set (map aqi [east_point, west_point])) = 50"
    "Max (set (map aqi [east_point, west_point])) = 51"
    "Min (set (map aod [hazy_cell])) = 153 / 1000"
    "Max (set (map aod [hazy_cell])) = 153 / 1000"
    by (simp_all add: east_point_def west_point_def hazy_cell_def)
  have j1: "\<forall>n\<in>set [east_point, west_point]. aqi n \<in> \<int>" using i1 i2 by simp
  have j2: "\<forall>n\<in>set [hazy_cell]. aod n * 1000 \<in> \<int>" using i3 by simp
  note t = cell_value_rounded_weighted_mean[OF h1 h2, of 25 "- 125" 25 "- 125",
      unfolded c, unfolded nearest_east_west n', unfolded m]
  from t j1 have a: "50 \<le> real_of_int (py_round (weighted_avg aqi [east_point, west_point]
            (weights 25 (- 125) [east_point, west_point])))
      \<and> real_of_int (py_round (weighted_avg aqi [east_point, west_point]
            (weights 25 (- 125) [east_point, west_point]))) \<le> 51"
    by blast
  from t j2 have b: "153 / 1000 \<le> py_round_nd (weighted_avg aod [hazy_cell] (weights 25 (- 125) [hazy_cell])) 3
      \<and> py_round_nd (weighted_avg aod [hazy_cell] (weights 25 (- 125) [hazy_cell])) 3 \<le> 153 / 1000"
    by blast
  from t have e: "filled [east_point, west_point] [(25, - 125)]
       = [\<lparr> lat = 25 + 1 / 2, lon = - 125 + 1 / 2,
            aqi = of_int (py_round (weighted_avg aqi [east_point, west_point]
              (weights 25 (- 125) [east_point, west_point]))), category = ''Interpolated'' \<rparr>]"
    by blast
  have f: "map aqi (filled [east_point, west_point] [(25, - 125)])
       = [of_int (py_round (weighted_avg aqi [east_point, west_point]
            (weights 25 (- 125) [east_point, west_point])))]"
    unfolding e by simp
  show ?thesis using h1 h2 i1 i2 i3 a b f by blast
qed

section \<open>Clustering\<close>

text \<open>
  Claim C1 says that clustering partitions its input: the member counts of the clusters
  add up to the number of observations and no observation belongs to two clusters. The
  inner loop of the source never looks at \<open>used\<close>, so a station lying within the
  radius of two seeds that are themselves further apart is put into both clusters. For
  the three stations above and the default radius of 150 km the code builds the clusters
  \<open>[a, b]\<close> and \<open>[c, b]\<close>: four members for three observations, \<open>b\<close> claimed twice.
\<close>

theorem chain_claimed_twice:
  "clusters [station_a, station_b, station_c] 150
     = [[station_a, station_b], [station_c, station_b]]
   \<and> sum_list (map length (clusters [station_a, station_b, station_c] 150)) = 4
   \<and> length [station_a, station_b, station_c] = 3"
proof -
  have "clusters [station_a, station_b, station_c] 150
     = [[station_a, station_b], [station_c, station_b]]"
    by (simp add: clusters_def near_def station_a_def station_b_def station_c_def
        chain_distances)
  then show ?thesis by simp
qed

section \<open>The representative of a cluster\<close>

lemma cluster_loop_nonempty: "list_all (\<lambda>c. c \<noteq> []) (cluster_loop points radius_km rest used)"
  by (induction points radius_km rest used rule: cluster_loop.induct) (simp_all add: Let_def)

lemma clusters_nonempty: "list_all (\<lambda>c. c \<noteq> []) (clusters points radius_km)"
  by (simp add: clusters_def cluster_loop_nonempty)

lemma scenario_distance:
  "haversine (lat scenario_a) (lon scenario_a) (lat scenario_b) (lon scenario_b) < 1"
  "haversine (lat scenario_a) (lon scenario_a) (lat scenario_c) (lon scenario_c) < 1"
  using haversine_scenario by (simp_all add: scenario_a_def scenario_b_def scenario_c_def)

lemma clusters_scenario:
  "clusters [scenario_a, scenario_b] 1 = [[scenario_a, scenario_b]]"
  "clusters [scenario_a, scenario_c] 1 = [[scenario_a, scenario_c]]"
  by (simp_all add: clusters_def near_def scenario_distance)

lemma representative_scenario:
  "representative [scenario_a, scenario_b]
     = \<lparr> lat = 40.0005, lon = - 100.0005, aqi = 52, category = ''Interpolated'' \<rparr>"
  "representative [scenario_a, scenario_c]
     = \<lparr> lat = 40.0005, lon = - 100.0005, aqi = 50, category = ''Interpolated'' \<rparr>"
  by (simp_all add: representative_def scenario_a_def scenario_b_def scenario_c_def py_round_def)

text \<open>
  Claim C6 says that the value of a representative is the mean of the member values. The
  code stores \<open>round(avg_aqi)\<close>. The points (40, -100) of value 50 and
  (40.001, -100.001) of value 51 lie within 1 km of each other and collapse to one
  representative of value 50, while the mean of the member values is 50.5.
\<close>

theorem representative_not_mean:
  "smoothed [scenario_a, scenario_c] 1
     = [\<lparr> lat = 40.0005, lon = - 100.0005, aqi = 50, category = ''Interpolated'' \<rparr>]
   \<and> sum_list (map aqi [scenario_a, scenario_c]) / real (length [scenario_a, scenario_c]) = 101 / 2"
  by (simp add: smoothed_def clusters_scenario representative_scenario)
     (simp add: scenario_a_def scenario_c_def)

text \<open>
  Claim C6 as amended: every cluster the code builds has at least one member, and a
  cluster of n members is collapsed to one point whose location is the centroid of the
  member locations, whose value is the mean of the member values rounded to a nearest
  integer (at most 1/2 away from the mean), and whose category is \<open>Interpolated\<close> when
  n > 1 and the sole member's category when n = 1. A single input point yields exactly
  one such one-member cluster; the points 50 and 54 of the specification's scenario,
  with radius 1 km, yield one representative of value 52 and category \<open>Interpolated\<close>.
\<close>

theorem representative_of_cluster:
  assumes "cluster \<noteq> []"
  shows "lat (representative cluster) = sum_list (map lat cluster) / real (length cluster)
     \<and> lon (representative cluster) = sum_list (map lon cluster) / real (length cluster)
     \<and> aqi (representative cluster)
         = of_int (py_round (sum_list (map aqi cluster) / real (length cluster)))
     \<and> \<bar>aqi (representative cluster) - sum_list (map aqi cluster) / real (length cluster)\<bar> \<le> 1 / 2
     \<and> category (representative cluster)
         = (if length cluster > 1 then ''Interpolated'' else category (hd cluster))
     \<and> smoothed points radius_km = map representative (clusters points radius_km)
     \<and> list_all (\<lambda>c. c \<noteq> []) (clusters points radius_km)
     \<and> smoothed [p] radius_km
         = [\<lparr> lat = lat p, lon = lon p, aqi = of_int (py_round (aqi p)), category = category p \<rparr>]
     \<and> smoothed [scenario_a, scenario_b] 1
         = [\<lparr> lat = 40.0005, lon = - 100.0005, aqi = 52, category = ''Interpolated'' \<rparr>]"
proof -
  have "\<bar>of_int (py_round (sum_list (map aqi cluster) / real (length cluster)))
        - sum_list (map aqi cluster) / real (length cluster)\<bar> \<le> 1 / 2"
    by (rule py_round_near)
  then show ?thesis
    by (simp add: representative_def[of cluster] Let_def smoothed_def clusters_nonempty clusters_single
        representative_single clusters_scenario representative_scenario)
qed

text \<open>Claim C6 as amended, at the cluster of the scenario's two points.\<close>

theorem representative_of_cluster_witness:
  "[scenario_a, scenario_b] \<noteq> []
   \<and> aqi (representative [scenario_a, scenario_b]) = 52
   \<and> category (representative [scenario_a, scenario_b]) = ''Interpolated''"
proof -
  have h: "[scenario_a, scenario_b] \<noteq> []" by simp
  have r: "py_round 52 = 52" using py_round_of_int[of 52] by simp
  have m: "sum_list (map aqi [scenario_a, scenario_b]) / real (length [scenario_a, scenario_b]) = 52"
    by (simp add: scenario_a_def scenario_b_def)
  from representative_of_cluster[OF h]
  have "aqi (representative [scenario_a, scenario_b])
         = of_int (py_round (sum_list (map aqi [scenario_a, scenario_b])
             / real (length [scenario_a, scenario_b])))"
    and "category (representative [scenario_a, scenario_b])
         = (if length [scenario_a, scenario_b] > 1 then ''Interpolated''
            else category (hd [scenario_a, scenario_b]))"
    by blast+
  then show ?thesis unfolding m r by simp
qed

section \<open>Where the cells are placed\<close>

lemma filled_locations:
  "points \<noteq> [] \<Longrightarrow>
     map (\<lambda>c. (lat c, lon c)) (filled points cells)
       = map (\<lambda>(la, lo). (of_int la + 1 / 2, of_int lo + 1 / 2)) cells"
  by (simp add: filled_map aqi_cell_def Let_def split_def)

lemma aod_loop_locations:
  "points \<noteq> [] \<Longrightarrow>
     map (\<lambda>c. (lat c, lon c)) (aod_loop points cells rnd k)
       = map (\<lambda>(i, la, lo). (la + rnd (k + 2 * i), lo + rnd (k + 2 * i + 1))) (enumerate 0 cells)"
  by (simp add: aod_loop_map aod_cell_def Let_def split_def)

lemma aod_loop_values:
  "map aod (aod_loop points cells rnd k) = map aod (aod_loop points cells rnd' k')"
proof (cases "points = []")
  case True
  then show ?thesis by (simp add: aod_loop_Nil)
next
  case False
  then show ?thesis by (simp add: aod_loop_map aod_cell_def Let_def split_def)
qed

lemma aod_lattice_first:
  "\<exists>rest. List.product (np_arange 25 49 2) (np_arange (- 125) (- 66) 2) = (25, - 125) # rest"
proof -
  have "\<exists>r. np_arange 25 49 2 = 25 # r"
    by (simp add: np_arange_def upt_rec)
  moreover have "\<exists>r. np_arange (- 125) (- 66) 2 = - 125 # r"
    by (simp add: np_arange_def upt_rec)
  ultimately show ?thesis by auto
qed

lemma smooth_aod_points_first:
  assumes "points \<noteq> []"
  shows "map lat (take 1 (smooth_aod_points points 2 rnd)) = [25 + rnd 0]"
proof -
  obtain rest where "List.product (np_arange 25 49 2) (np_arange (- 125) (- 66) 2) = (25, - 125) # rest"
    using aod_lattice_first by blast
  then show ?thesis
    using assms by (simp add: smooth_aod_points_def nearest_Nil_iff aod_cell_def Let_def)
qed

text \<open>
  Claim C4 says that two runs of an interpolator over the same points emit cells at the
  same coordinates, whatever the random source. \<open>smooth_aod_points\<close> adds a fresh
  draw of \<open>random.uniform(-0.3, 0.3)\<close> to each coordinate it emits: over the same single
  point and the same spacing, the tape of draws 0 puts the first cell at latitude 25 and
  the tape of draws 0.1 puts it at latitude 25.1.
\<close>

theorem aod_cells_depend_on_draws:
  "smooth_aod_points [lone_aod] 2 tape_zero \<noteq> smooth_aod_points [lone_aod] 2 tape_tenth
   \<and> map lat (take 1 (smooth_aod_points [lone_aod] 2 tape_zero)) = [25]
   \<and> map lat (take 1 (smooth_aod_points [lone_aod] 2 tape_tenth)) = [251 / 10]"
proof -
  have a: "map lat (take 1 (smooth_aod_points [lone_aod] 2 tape_zero)) = [25]"
    using smooth_aod_points_first[of "[lone_aod]" tape_zero] by (simp add: tape_zero_def)
  have b: "map lat (take 1 (smooth_aod_points [lone_aod] 2 tape_tenth)) = [251 / 10]"
    using smooth_aod_points_first[of "[lone_aod]" tape_tenth] by (simp add: tape_tenth_def)
  have "smooth_aod_points [lone_aod] 2 tape_zero \<noteq> smooth_aod_points [lone_aod] 2 tape_tenth"
  proof
    assume "smooth_aod_points [lone_aod] 2 tape_zero = smooth_aod_points [lone_aod] 2 tape_tenth"
    with a b have "[25::real] = [251 / 10]" by simp
    then show False by simp
  qed
  with a b show ?thesis by simp
qed

text \<open>
  Claim C4 as amended: the lattice visited is a function of the configuration only. The
  AQI interpolator emits its cells, after the cluster representatives, at the lattice
  coordinates plus 0.5, whatever the input points, and no random source is involved. The
  AOD interpolator walks the lattice of its ranges and spacing in a fixed order and its
  cell values do not depend on the random source, but the cell with index i is emitted
  at its lattice coordinate plus the draws number 2i (latitude) and 2i + 1 (longitude).
\<close>

theorem cell_locations:
  assumes "points \<noteq> []" and "apoints \<noteq> []"
  shows "map (\<lambda>c. (lat c, lon c)) (filled points cells)
       = map (\<lambda>(la, lo). (of_int la + 1 / 2, of_int lo + 1 / 2)) cells
     \<and> drop (length (smoothed points radius_km)) (smooth_aqi_points points radius_km)
       = filled points (List.product aqi_lat_range aqi_lon_range)
     \<and> smooth_aod_points apoints spacing rnd
       = aod_loop apoints (List.product (np_arange 25 49 spacing) (np_arange (- 125) (- 66) spacing)) rnd 0
     \<and> map (\<lambda>c. (lat c, lon c)) (aod_loop apoints rcells rnd k)
       = map (\<lambda>(i, la, lo). (la + rnd (k + 2 * i), lo + rnd (k + 2 * i + 1))) (enumerate 0 rcells)
     \<and> map aod (aod_loop apoints rcells rnd k) = map aod (aod_loop apoints rcells rnd' k')"
  using assms
  by (simp add: filled_locations aod_loop_locations aod_loop_values[of apoints rcells rnd k rnd' k']
      smooth_aqi_points_def smooth_aod_points_def)

text \<open>Claim C4 as amended, at two lattice coordinates and the tape of draws 0.1.\<close>

theorem cell_locations_witness:
  "[lone_point] \<noteq> [] \<and> [lone_aod] \<noteq> []
   \<and> map (\<lambda>c. (lat c, lon c)) (filled [lone_point] [(25, - 125), (25, - 123)])
       = [(51 / 2, - (249 / 2)), (51 / 2, - (245 / 2))]
   \<and> map (\<lambda>c. (lat c, lon c)) (aod_loop [lone_aod] [(25, - 125), (25, - 123)] tape_tenth 0)
       = [(251 / 10, - (1249 / 10)), (251 / 10, - (1229 / 10))]"
proof -
  have h1: "[lone_point] \<noteq> []" and h2: "[lone_aod] \<noteq> []" by simp_all
  from cell_locations[OF h1 h2, where cells = "[(25, - 125), (25, - 123)]"
      and rcells = "[(25, - 125), (25, - 123)]" and rnd = tape_tenth and k = 0]
  have "map (\<lambda>c. (lat c, lon c)) (filled [lone_point] [(25, - 125), (25, - 123)])
       = map (\<lambda>(la, lo). (of_int la + 1 / 2, of_int lo + 1 / 2)) [(25, - 125), (25, - 123)]"
    and "map (\<lambda>c. (lat c, lon c)) (aod_loop [lone_aod] [(25, - 125), (25, - 123)] tape_tenth 0)
       = map (\<lambda>(i, la, lo). (la + tape_tenth (0 + 2 * i), lo + tape_tenth (0 + 2 * i + 1)))
           (enumerate 0 [(25, - 125), (25, - 123)])"
    by blast+
  then show ?thesis by (simp add: tape_tenth_def)
qed

section \<open>The cached fetchers\<close>

lemma fresh_Some: "(now - mtime f) / 3600 < 2 \<Longrightarrow> fresh now (Some f) = Some f"
  by (simp add: fresh_def)

lemma fresh_stale: "2 \<le> (now - mtime f) / 3600 \<Longrightarrow> fresh now (Some f) = None"
  by (simp add: fresh_def)

lemma fresh_None: "fresh now None = None"
  by (simp add: fresh_def)

lemma fetch_station_failed:
  "r = Raised \<or> (\<exists>status data. r = Reply status data \<and> status \<noteq> 200) \<Longrightarrow> fetch_station r = []"
  by (auto simp: fetch_station_def)

lemma concat_all_Nil: "concat (map (\<lambda>x. []) xs) = []"
  by (induction xs) simp_all

lemma fetch_all_aqi_failed:
  assumes "\<And>c. net c = Raised \<or> (\<exists>status data. net c = Reply status data \<and> status \<noteq> 200)"
  shows "fetch_all_aqi net = []"
proof -
  have "fetch_station (net c) = []" for c
    by (rule fetch_station_failed) (rule assms)
  then show ?thesis by (simp add: fetch_all_aqi_def split_def concat_all_Nil)
qed

lemma fetch_aod_granules_failed:
  "\<not> login l \<or> s = SearchRaised \<Longrightarrow> fetch_aod_granules l s draws = []"
  by (auto simp: fetch_aod_granules_def)

lemma smooth_Nil:
  "smooth_aqi_points [] radius_km = []" "smooth_aod_points [] spacing rnd = []"
  by (simp_all add: smooth_aqi_points_def smooth_aod_points_def)

text \<open>
  Claim C5: when the cache file exists, holds a payload and is younger than two hours (by
  its modification time), the fetcher returns that payload, leaves the file as it is and
  does not run the fetch-and-smooth step; when there is no file, or the file is two hours
  old or older, the fetcher runs the step exactly once, replaces the file by one holding
  the result and stamped with the current time, and returns the result. Both fetchers.
\<close>

theorem freshness_gate:
  "(c = Some f \<and> content f = Json d \<and> (now - mtime f) / 3600 < 2
      \<longrightarrow> fetch_aqi_data now c net = \<lparr> returned = Inr d, cache = c, computed = 0 \<rparr>)
   \<and> (c = None \<or> (c = Some f \<and> 2 \<le> (now - mtime f) / 3600)
      \<longrightarrow> fetch_aqi_data now c net
          = \<lparr> returned = Inr (smooth_aqi_points (fetch_all_aqi net) 150),
              cache = Some \<lparr> mtime = now,
                             content = Json (smooth_aqi_points (fetch_all_aqi net) 150) \<rparr>,
              computed = 1 \<rparr>)
   \<and> (c' = Some f' \<and> content f' = Json d' \<and> (now - mtime f') / 3600 < 2
      \<longrightarrow> fetch_aod_data now c' l s draws rnd = \<lparr> returned = Inr d', cache = c', computed = 0 \<rparr>)
   \<and> (c' = None \<or> (c' = Some f' \<and> 2 \<le> (now - mtime f') / 3600)
      \<longrightarrow> fetch_aod_data now c' l s draws rnd
          = \<lparr> returned = Inr (smooth_aod_points (fetch_aod_granules l s draws) 2 rnd),
              cache = Some \<lparr> mtime = now,
                             content = Json (smooth_aod_points (fetch_aod_granules l s draws) 2 rnd) \<rparr>,
              computed = 1 \<rparr>)"
  by (auto simp: fetch_aqi_data_def fetch_aod_data_def fresh_Some fresh_stale fresh_None
      load_def dump_def Let_def)

text \<open>
  Claim C5 at one-hour-old entries (served from the file), at two-hour-old entries and
  at a missing file (recomputed and replaced), with both upstream services down.
\<close>

theorem freshness_gate_witness:
  "content aqi_entry = Json [lone_point] \<and> (3600 - mtime aqi_entry) / 3600 < 2
   \<and> fetch_aqi_data 3600 (Some aqi_entry) net_down
       = \<lparr> returned = Inr [lone_point], cache = Some aqi_entry, computed = 0 \<rparr>
   \<and> 2 \<le> (7200 - mtime aqi_entry) / 3600
   \<and> fetch_aqi_data 7200 (Some aqi_entry) net_down
       = \<lparr> returned = Inr [], cache = Some \<lparr> mtime = 7200, content = Json [] \<rparr>, computed = 1 \<rparr>
   \<and> content aod_entry = Json [hazy_cell] \<and> (3600 - mtime aod_entry) / 3600 < 2
   \<and> fetch_aod_data 3600 (Some aod_entry) NotAuthenticated (Found 0) zero_draws tape_zero
       = \<lparr> returned = Inr [hazy_cell], cache = Some aod_entry, computed = 0 \<rparr>
   \<and> 2 \<le> (7200 - mtime aod_entry) / 3600
   \<and> fetch_aod_data 7200 (Some aod_entry) NotAuthenticated (Found 0) zero_draws tape_zero
       = \<lparr> returned = Inr [], cache = Some \<lparr> mtime = 7200, content = Json [] \<rparr>, computed = 1 \<rparr>
   \<and> fetch_aqi_data 7200 None net_down
       = \<lparr> returned = Inr [], cache = Some \<lparr> mtime = 7200, content = Json [] \<rparr>, computed = 1 \<rparr>"
proof -
  have h1: "content aqi_entry = Json [lone_point] \<and> (3600 - mtime aqi_entry) / 3600 < 2"
    and h2: "2 \<le> (7200 - mtime aqi_entry) / 3600"
    by (simp_all add: aqi_entry_def)
  have h3: "content aod_entry = Json [hazy_cell] \<and> (3600 - mtime aod_entry) / 3600 < 2"
    and h4: "2 \<le> (7200 - mtime aod_entry) / 3600"
    by (simp_all add: aod_entry_def)
  have g: "smooth_aod_points (fetch_aod_granules NotAuthenticated (Found 0) zero_draws) 2 tape_zero = []"
    by (simp add: fetch_aod_granules_failed login_def smooth_Nil)
  have q: "smooth_aqi_points (fetch_all_aqi net_down) 150 = []"
    by (simp add: fetch_all_aqi_failed net_down_def smooth_Nil)
  note t1 = freshness_gate[where c = "Some aqi_entry" and f = aqi_entry and d = "[lone_point]"
      and now = 3600 and net = net_down and c' = "Some aod_entry" and f' = aod_entry
      and d' = "[hazy_cell]" and l = NotAuthenticated and s = "Found 0" and draws = zero_draws
      and rnd = tape_zero]
  note t2 = freshness_gate[where c = "Some aqi_entry" and f = aqi_entry
      and now = 7200 and net = net_down and c' = "Some aod_entry" and f' = aod_entry
      and l = NotAuthenticated and s = "Found 0" and draws = zero_draws and rnd = tape_zero]
  note t3 = freshness_gate[where c = None and now = 7200 and net = net_down]
  have a: "fetch_aqi_data 3600 (Some aqi_entry) net_down
       = \<lparr> returned = Inr [lone_point], cache = Some aqi_entry, computed = 0 \<rparr>"
    using t1 h1 by blast
  have b: "fetch_aod_data 3600 (Some aod_entry) NotAuthenticated (Found 0) zero_draws tape_zero
       = \<lparr> returned = Inr [hazy_cell], cache = Some aod_entry, computed = 0 \<rparr>"
    using t1 h3 by blast
  have c: "fetch_aqi_data 7200 (Some aqi_entry) net_down
       = \<lparr> returned = Inr [], cache = Some \<lparr> mtime = 7200, content = Json [] \<rparr>, computed = 1 \<rparr>"
    using t2 h2 unfolding q by blast
  have d: "fetch_aod_data 7200 (Some aod_entry) NotAuthenticated (Found 0) zero_draws tape_zero
       = \<lparr> returned = Inr [], cache = Some \<lparr> mtime = 7200, content = Json [] \<rparr>, computed = 1 \<rparr>"
    using t2 h4 unfolding g by blast
  have e: "fetch_aqi_data 7200 None net_down
       = \<lparr> returned = Inr [], cache = Some \<lparr> mtime = 7200, content = Json [] \<rparr>, computed = 1 \<rparr>"
    using t3 unfolding q by blast
  show ?thesis using h1 h2 h3 h4 a b c d e by blast
qed

text \<open>
  Claim C2 says that a failed recomputation (network error, upstream auth failure) leaves
  a stale entry intact. The adapters catch those failures and return an empty list, which
  the fetcher smooths and writes like any other result: with a two-hour-old AOD entry
  and a login that does not authenticate, the file afterwards holds the payload \<open>[]\<close>.
\<close>

theorem failed_fetch_overwrites_entry:
  "content aod_entry = Json [hazy_cell]
   \<and> 2 \<le> (7200 - mtime aod_entry) / 3600
   \<and> fetch_aod_data 7200 (Some aod_entry) NotAuthenticated (Found 0) zero_draws tape_zero
       = \<lparr> returned = Inr [], cache = Some \<lparr> mtime = 7200, content = Json [] \<rparr>, computed = 1 \<rparr>
   \<and> cache (fetch_aod_data 7200 (Some aod_entry) NotAuthenticated (Found 0) zero_draws tape_zero)
       \<noteq> Some aod_entry"
  by (simp add: fetch_aod_data_def fresh_def aod_entry_def fetch_aod_granules_failed login_def
      smooth_Nil dump_def)

text \<open>
  Claim C2 as amended: the fetchers never remove the cache file. A failure of the
  upstream service is not a failure of the fetch-and-smooth step: when the Earthdata
  login fails or the search raises, or when every AirNow request raises or answers with
  a status other than 200, the step yields the empty list, and a stale entry is then
  replaced by an entry with the payload \<open>[]\<close> stamped with the current time, which is
  also what the fetcher returns.
\<close>

theorem failed_fetch_outcome:
  assumes "2 \<le> (now - mtime f) / 3600" and "2 \<le> (now - mtime g) / 3600"
    and "\<not> login l \<or> s = SearchRaised"
    and "\<And>c. net c = Raised \<or> (\<exists>status data. net c = Reply status data \<and> status \<noteq> 200)"
  shows "fetch_aod_data now (Some f) l s draws rnd
       = \<lparr> returned = Inr [], cache = Some \<lparr> mtime = now, content = Json [] \<rparr>, computed = 1 \<rparr>
     \<and> fetch_aqi_data now (Some g) net
       = \<lparr> returned = Inr [], cache = Some \<lparr> mtime = now, content = Json [] \<rparr>, computed = 1 \<rparr>
     \<and> cache (fetch_aod_data now' c' l' s' draws' rnd') \<noteq> None
     \<and> cache (fetch_aqi_data now' c net') \<noteq> None"
proof -
  have a: "fetch_aod_data now (Some f) l s draws rnd
       = \<lparr> returned = Inr [], cache = Some \<lparr> mtime = now, content = Json [] \<rparr>, computed = 1 \<rparr>"
    using assms(1,3)
    by (simp add: fetch_aod_data_def fresh_stale fetch_aod_granules_failed smooth_Nil dump_def)
  have b: "fetch_aqi_data now (Some g) net
       = \<lparr> returned = Inr [], cache = Some \<lparr> mtime = now, content = Json [] \<rparr>, computed = 1 \<rparr>"
    using assms(2) fetch_all_aqi_failed[of net, OF assms(4)]
    by (simp add: fetch_aqi_data_def fresh_stale smooth_Nil dump_def)
  have c: "cache (fetch_aod_data now' c' l' s' draws' rnd') \<noteq> None"
    by (auto simp: fetch_aod_data_def fresh_def load_def dump_def Let_def
        split: option.splits content.splits if_splits)
  have d: "cache (fetch_aqi_data now' c net') \<noteq> None"
    by (auto simp: fetch_aqi_data_def fresh_def load_def dump_def Let_def
        split: option.splits content.splits if_splits)
  show ?thesis using a b c d by blast
qed

text \<open>Claim C2 as amended, at two-hour-old entries with both upstream services failing.\<close>

theorem failed_fetch_outcome_witness:
  "2 \<le> (7200 - mtime aod_entry) / 3600 \<and> 2 \<le> (7200 - mtime aqi_entry) / 3600
   \<and> login NotAuthenticated = False
   \<and> net_down (47.61, - 122.33) = Raised
   \<and> fetch_aod_data 7200 (Some aod_entry) NotAuthenticated (Found 0) zero_draws tape_zero
       = \<lparr> returned = Inr [], cache = Some \<lparr> mtime = 7200, content = Json [] \<rparr>, computed = 1 \<rparr>
   \<and> fetch_aqi_data 7200 (Some aqi_entry) net_down
       = \<lparr> returned = Inr [], cache = Some \<lparr> mtime = 7200, content = Json [] \<rparr>, computed = 1 \<rparr>"
proof -
  have h1: "2 \<le> (7200 - mtime aod_entry) / 3600" by (simp add: aod_entry_def)
  have h2: "2 \<le> (7200 - mtime aqi_entry) / 3600" by (simp add: aqi_entry_def)
  have h3: "\<not> login NotAuthenticated \<or> Found 0 = SearchRaised" by (simp add: login_def)
  have h4: "net_down c = Raised \<or> (\<exists>status data. net_down c = Reply status data \<and> status \<noteq> 200)" for c
    by (simp add: net_down_def)
  have e: "login NotAuthenticated = False" "net_down (47.61, - 122.33) = Raised"
    by (simp_all add: login_def net_down_def)
  from failed_fetch_outcome[where f = aod_entry and g = aqi_entry and now = 7200
      and l = NotAuthenticated and s = "Found 0" and net = net_down and draws = zero_draws
      and rnd = tape_zero, OF h1 h2 h3 h4]
  have "fetch_aod_data 7200 (Some aod_entry) NotAuthenticated (Found 0) zero_draws tape_zero
       = \<lparr> returned = Inr [], cache = Some \<lparr> mtime = 7200, content = Json [] \<rparr>, computed = 1 \<rparr>"
    and "fetch_aqi_data 7200 (Some aqi_entry) net_down
       = \<lparr> returned = Inr [], cache = Some \<lparr> mtime = 7200, content = Json [] \<rparr>, computed = 1 \<rparr>"
    by blast+
  with h1 h2 e show ?thesis by blast
qed

text \<open>
  Claim C3 says that an entry that does not parse is treated like a missing one and
  never makes the fetcher raise. The code reads a file younger than two hours without
  any handler: with a one-hour-old corrupt file the fetcher raises the decoding error and
  does not recompute, unlike the run without a file.
\<close>

theorem fresh_corrupt_entry_raises:
  "content corrupt_entry = Corrupt
   \<and> (3600 - mtime corrupt_entry) / 3600 < 2
   \<and> fetch_aqi_data 3600 (Some corrupt_entry) net_down
       = \<lparr> returned = Inl JSONDecodeError, cache = Some corrupt_entry, computed = 0 \<rparr>
   \<and> fetch_aqi_data 3600 (Some corrupt_entry) net_down \<noteq> fetch_aqi_data 3600 None net_down"
proof -
  have a: "fetch_aqi_data 3600 (Some corrupt_entry) net_down
       = \<lparr> returned = Inl JSONDecodeError, cache = Some corrupt_entry, computed = 0 \<rparr>"
    by (simp add: fetch_aqi_data_def fresh_def corrupt_entry_def load_def)
  have b: "computed (fetch_aqi_data 3600 None net_down) = 1"
    by (simp add: fetch_aqi_data_def fresh_def dump_def Let_def)
  have "fetch_aqi_data 3600 (Some corrupt_entry) net_down \<noteq> fetch_aqi_data 3600 None net_down"
  proof
    assume "fetch_aqi_data 3600 (Some corrupt_entry) net_down = fetch_aqi_data 3600 None net_down"
    then have "computed (fetch_aqi_data 3600 (Some corrupt_entry) net_down) = 1" using b by simp
    then show False unfolding a by simp
  qed
  with a show ?thesis by (simp add: corrupt_entry_def)
qed

text \<open>
  Claim C3 as amended: a corrupt entry that is two hours old or older is never read, and
  the fetcher behaves exactly as it does with no entry (recompute, replace, return); a
  corrupt entry younger than two hours makes \<open>json.load\<close> raise, the error reaches the
  caller, nothing is recomputed and the file stays as it is. Both fetchers.
\<close>

theorem corrupt_entry_outcome:
  assumes "content f = Corrupt" and "content g = Corrupt"
  shows "(2 \<le> (now - mtime f) / 3600
        \<longrightarrow> fetch_aqi_data now (Some f) net = fetch_aqi_data now None net)
     \<and> ((now - mtime f) / 3600 < 2
        \<longrightarrow> fetch_aqi_data now (Some f) net
            = \<lparr> returned = Inl JSONDecodeError, cache = Some f, computed = 0 \<rparr>)
     \<and> (2 \<le> (now - mtime g) / 3600
        \<longrightarrow> fetch_aod_data now (Some g) l s draws rnd = fetch_aod_data now None l s draws rnd)
     \<and> ((now - mtime g) / 3600 < 2
        \<longrightarrow> fetch_aod_data now (Some g) l s draws rnd
            = \<lparr> returned = Inl JSONDecodeError, cache = Some g, computed = 0 \<rparr>)"
  using assms
  by (simp add: fetch_aqi_data_def fetch_aod_data_def fresh_Some fresh_stale fresh_None load_def)

text \<open>Claim C3 as amended, at two-hour-old and at one-hour-old corrupt files.\<close>

theorem corrupt_entry_outcome_witness:
  "content corrupt_entry = Corrupt \<and> content corrupt_aod_entry = Corrupt
   \<and> 2 \<le> (7200 - mtime corrupt_entry) / 3600
   \<and> fetch_aqi_data 7200 (Some corrupt_entry) net_down = fetch_aqi_data 7200 None net_down
   \<and> (3600 - mtime corrupt_entry) / 3600 < 2
   \<and> fetch_aqi_data 3600 (Some corrupt_entry) net_down
       = \<lparr> returned = Inl JSONDecodeError, cache = Some corrupt_entry, computed = 0 \<rparr>
   \<and> 2 \<le> (7200 - mtime corrupt_aod_entry) / 3600
   \<and> fetch_aod_data 7200 (Some corrupt_aod_entry) Authenticated (Found 50) zero_draws tape_zero
       = fetch_aod_data 7200 None Authenticated (Found 50) zero_draws tape_zero
   \<and> (3600 - mtime corrupt_aod_entry) / 3600 < 2
   \<and> fetch_aod_data 3600 (Some corrupt_aod_entry) Authenticated (Found 50) zero_draws tape_zero
       = \<lparr> returned = Inl JSONDecodeError, cache = Some corrupt_aod_entry, computed = 0 \<rparr>"
proof -
  have h1: "content corrupt_entry = Corrupt" and h2: "content corrupt_aod_entry = Corrupt"
    by (simp_all add: corrupt_entry_def corrupt_aod_entry_def)
  have h3: "2 \<le> (7200 - mtime corrupt_entry) / 3600"
    and h4: "(3600 - mtime corrupt_entry) / 3600 < 2"
    by (simp_all add: corrupt_entry_def)
  have h5: "2 \<le> (7200 - mtime corrupt_aod_entry) / 3600"
    and h6: "(3600 - mtime corrupt_aod_entry) / 3600 < 2"
    by (simp_all add: corrupt_aod_entry_def)
  note t1 = corrupt_entry_outcome[OF h1 h2, where now = 7200 and net = net_down
      and l = Authenticated and s = "Found 50" and draws = zero_draws and rnd = tape_zero]
  note t2 = corrupt_entry_outcome[OF h1 h2, where now = 3600 and net = net_down
      and l = Authenticated and s = "Found 50" and draws = zero_draws and rnd = tape_zero]
  have a: "fetch_aqi_data 7200 (Some corrupt_entry) net_down = fetch_aqi_data 7200 None net_down"
    using t1 h3 by blast
  have b: "fetch_aqi_data 3600 (Some corrupt_entry) net_down
       = \<lparr> returned = Inl JSONDecodeError, cache = Some corrupt_entry, computed = 0 \<rparr>"
    using t2 h4 by blast
  have c: "fetch_aod_data 7200 (Some corrupt_aod_entry) Authenticated (Found 50) zero_draws tape_zero
       = fetch_aod_data 7200 None Authenticated (Found 50) zero_draws tape_zero"
    using t1 h5 by blast
  have d: "fetch_aod_data 3600 (Some corrupt_aod_entry) Authenticated (Found 50) zero_draws tape_zero
       = \<lparr> returned = Inl JSONDecodeError, cache = Some corrupt_aod_entry, computed = 0 \<rparr>"
    using t2 h6 by blast
  show ?thesis using h1 h2 h3 h4 h5 h6 a b c d by blast
qed

end
